theory Spec2Isabelle
  imports Complex_Main "HOL-Library.Sublist"
begin

section \<open>Numbers\<close>

text \<open>
  The TypeScript type \<open>number\<close> is the IEEE 754 binary64 format. A \<open>number\<close> is a finite
  value \<open>Num r\<close>, one of the two infinities, or \<open>NaN\<close>; the two zeros are identified. Every
  arithmetic operation computes the exact rational result and rounds it to the nearest
  double, a tie going to the even significand (\<open>fl\<close>): results of magnitude
  \<open>2 ^ 1024\<close> and more, after rounding, are infinite, and below \<open>2 ^ -1022\<close> the spacing
  stays at \<open>2 ^ -1074\<close>. A decimal literal of the source denotes the double nearest to
  it (\<open>lit\<close>).
\<close>

datatype number = Num rat | Infinity | NegInfinity | NaN

text \<open>The number of binary digits of a positive integer.\<close>

function bits :: "int \<Rightarrow> int" where
  "bits n = (if n \<le> 0 then 0 else 1 + bits (n div 2))"
  by pat_completeness auto
termination
  by (relation "measure nat") auto

declare bits.simps [simp del]

definition pow2 :: "int \<Rightarrow> rat" where
  "pow2 e = (if 0 \<le> e then of_int (2 ^ nat e) else 1 / of_int (2 ^ nat (- e)))"

text \<open>
  For \<open>a > 0\<close>, \<open>exponent a\<close> is the integer \<open>e\<close> with \<open>2 ^ e \<le> a < 2 ^ (e + 1)\<close>: the
  difference of the bit lengths of numerator and denominator, or one less.
\<close>

definition exponent :: "rat \<Rightarrow> int" where
  "exponent a =
     (let (p, q) = quotient_of a;
          d = bits p - bits q
      in if pow2 d \<le> a then d else d - 1)"

definition round_even :: "rat \<Rightarrow> int" where
  "round_even x =
     (let f = \<lfloor>x\<rfloor>; d = x - of_int f
      in if d < 1 / 2 then f else if 1 / 2 < d then f + 1 else if even f then f else f + 1)"

definition signed_inf :: "rat \<Rightarrow> number" where
  "signed_inf x = (if x < 0 then NegInfinity else Infinity)"

definition fl :: "rat \<Rightarrow> number" where
  "fl x =
     (if x = 0 then Num 0
      else
        let a = \<bar>x\<bar>; e0 = exponent a
        in if 1024 \<le> e0 then signed_inf x
           else
             let e = max e0 (- 1022);
                 m = round_even (a / pow2 (e - 52))
             in if e = 1023 \<and> m = 9007199254740992 then signed_inf x
                else Num ((if x < 0 then - 1 else 1) * (of_int m * pow2 (e - 52))))"

definition lit :: "rat \<Rightarrow> number" where
  "lit x = fl x"

definition sign_times :: "bool \<Rightarrow> bool \<Rightarrow> number" where
  "sign_times s t = (if s = t then Infinity else NegInfinity)"

instantiation number :: "{plus, minus, times, inverse}"
begin

definition plus_number :: "number \<Rightarrow> number \<Rightarrow> number" where
  "a + b =
     (case (a, b) of
        (NaN, _) \<Rightarrow> NaN
      | (_, NaN) \<Rightarrow> NaN
      | (Infinity, NegInfinity) \<Rightarrow> NaN
      | (NegInfinity, Infinity) \<Rightarrow> NaN
      | (Infinity, _) \<Rightarrow> Infinity
      | (_, Infinity) \<Rightarrow> Infinity
      | (NegInfinity, _) \<Rightarrow> NegInfinity
      | (_, NegInfinity) \<Rightarrow> NegInfinity
      | (Num x, Num y) \<Rightarrow> fl (x + y))"

definition minus_number :: "number \<Rightarrow> number \<Rightarrow> number" where
  "a - b =
     (case (a, b) of
        (NaN, _) \<Rightarrow> NaN
      | (_, NaN) \<Rightarrow> NaN
      | (Infinity, Infinity) \<Rightarrow> NaN
      | (NegInfinity, NegInfinity) \<Rightarrow> NaN
      | (Infinity, _) \<Rightarrow> Infinity
      | (_, NegInfinity) \<Rightarrow> Infinity
      | (NegInfinity, _) \<Rightarrow> NegInfinity
      | (_, Infinity) \<Rightarrow> NegInfinity
      | (Num x, Num y) \<Rightarrow> fl (x - y))"

definition times_number :: "number \<Rightarrow> number \<Rightarrow> number" where
  "a * b =
     (case (a, b) of
        (NaN, _) \<Rightarrow> NaN
      | (_, NaN) \<Rightarrow> NaN
      | (Num x, Num y) \<Rightarrow> fl (x * y)
      | (Num x, Infinity) \<Rightarrow> if x = 0 then NaN else sign_times (0 < x) True
      | (Num x, NegInfinity) \<Rightarrow> if x = 0 then NaN else sign_times (0 < x) False
      | (Infinity, Num y) \<Rightarrow> if y = 0 then NaN else sign_times True (0 < y)
      | (NegInfinity, Num y) \<Rightarrow> if y = 0 then NaN else sign_times False (0 < y)
      | (Infinity, Infinity) \<Rightarrow> Infinity
      | (NegInfinity, NegInfinity) \<Rightarrow> Infinity
      | (Infinity, NegInfinity) \<Rightarrow> NegInfinity
      | (NegInfinity, Infinity) \<Rightarrow> NegInfinity)"

definition divide_number :: "number \<Rightarrow> number \<Rightarrow> number" where
  "divide a b =
     (case (a, b) of
        (NaN, _) \<Rightarrow> NaN
      | (_, NaN) \<Rightarrow> NaN
      | (Num x, Num y) \<Rightarrow>
          if y = 0 then (if x = 0 then NaN else if 0 < x then Infinity else NegInfinity)
          else fl (x / y)
      | (Num x, _) \<Rightarrow> Num 0
      | (Infinity, Num y) \<Rightarrow> sign_times True (0 \<le> y)
      | (NegInfinity, Num y) \<Rightarrow> sign_times False (0 \<le> y)
      | (_, _) \<Rightarrow> NaN)"

definition inverse_number :: "number \<Rightarrow> number" where
  "inverse a = divide (Num 1) a"

instance ..

end

text \<open>
  \<open>Math.round\<close> rounds to the nearest integer and rounds a tie towards plus infinity:
  \<open>Math.round(2.5) = 3\<close>, \<open>Math.round(-2.5) = -2\<close>; it is exact, and returns an infinity
  or \<open>NaN\<close> unchanged. \<open>Math.max\<close> is \<open>NaN\<close> when an argument is.
\<close>

definition Math_round :: "number \<Rightarrow> number" where
  "Math_round a = (case a of Num x \<Rightarrow> Num (of_int \<lfloor>x + 1 / 2\<rfloor>) | _ \<Rightarrow> a)"

definition Math_max :: "number \<Rightarrow> number \<Rightarrow> number" where
  "Math_max a b =
     (case (a, b) of
        (NaN, _) \<Rightarrow> NaN
      | (_, NaN) \<Rightarrow> NaN
      | (Infinity, _) \<Rightarrow> Infinity
      | (_, Infinity) \<Rightarrow> Infinity
      | (NegInfinity, y) \<Rightarrow> y
      | (x, NegInfinity) \<Rightarrow> x
      | (Num x, Num y) \<Rightarrow> Num (if x < y then y else x))"

text \<open>A number is falsy when it is zero or \<open>NaN\<close>.\<close>

definition truthy_number :: "number \<Rightarrow> bool" where
  "truthy_number a = (a \<noteq> Num 0 \<and> a \<noteq> NaN)"

section \<open>Data model (types.ts)\<close>

datatype gender = male | female | other
datatype activityLevel = sedentary | light | moderate | active | athlete
datatype goal = lose_fat | maintain | gain_muscle

record UserProfile =
  profile_name :: string
  age :: number
  heightCm :: number
  weightKg :: number
  gender :: gender
  activityLevel :: activityLevel
  goal :: goal
  dietaryPreferences :: string

text \<open>
  \<open>confidence\<close> and \<open>intensity\<close> range over the same three string literals. A timestamp
  is an integral number of milliseconds since the epoch. An optional field of an interface
  is an \<open>option\<close>; the source tests such a field for truthiness, and an array or an object
  is truthy even when empty. A field keeps its name, except that \<open>name\<close>, which three
  interfaces share, \<open>type\<close> and \<open>notes\<close> carry a prefix.
\<close>

datatype level = low | medium | high

record MacroNutrients =
  calories :: number
  protein :: number
  carbs :: number
  fat :: number

record FoodItem = MacroNutrients +
  food_name :: string
  quantity :: number
  unit :: string
  baseCalories :: number
  baseProtein :: number
  baseCarbs :: number
  baseFat :: number
  confidence :: level
  item_notes :: "string option"

record ExerciseItem =
  exercise_name :: string
  durationMinutes :: number
  caloriesBurned :: number
  intensity :: level

datatype entryType = Food | Exercise | Note

record LogEntry =
  id :: string
  timestamp :: int
  entry_type :: entryType
  items :: "FoodItem list option"
  exercise :: "ExerciseItem option"
  noteContent :: "string option"
  image :: "string option"

section \<open>Strings\<close>

text \<open>
  Strings are lists of ASCII characters. \<open>toLowerCase\<close> maps the letters \<open>A\<close> to \<open>Z\<close> to
  \<open>a\<close> to \<open>z\<close> and leaves every other character as it is. \<open>s.includes(t)\<close>, written
  \<open>str_includes s t\<close>, holds when \<open>t\<close> occurs in \<open>s\<close> as a contiguous block: \<open>t\<close> is a
  prefix of \<open>s\<close> or of one of its suffixes.
\<close>

definition lower_char :: "char \<Rightarrow> char" where
  "lower_char c =
     (let n = (of_char c :: nat) in if 65 \<le> n \<and> n \<le> 90 then char_of (n + 32) else c)"

definition toLowerCase :: "string \<Rightarrow> string" where
  "toLowerCase s = map lower_char s"

fun str_includes :: "string \<Rightarrow> string \<Rightarrow> bool" where
  "str_includes [] t = (t = [])"
| "str_includes (c # cs) t = (prefix t (c # cs) \<or> str_includes cs t)"

section \<open>Calendar days\<close>

text \<open>
  The dashboard uses the date library only to compare local calendar days and to name
  weekdays. A \<open>Date\<close> is therefore represented by what the code observes of it: the number
  of its local calendar day, counted from 1 January 1970. The time zone is the parameter
  \<open>dayOf\<close>, which maps a timestamp to that number. \<open>startOfDay\<close> keeps the day,
  \<open>subDays(d, i)\<close> is the \<open>i\<close>-th calendar day before \<open>d\<close>, \<open>isSameDay\<close> compares the day
  numbers, and \<open>format(d, 'EEE')\<close> is the short English weekday name; day 0 was a Thursday.
  The clock is read once: \<open>now\<close> is the timestamp of the render.
\<close>

type_synonym day = int

definition startOfDay :: "day \<Rightarrow> day" where
  "startOfDay d = d"

definition isSameDay :: "day \<Rightarrow> day \<Rightarrow> bool" where
  "isSameDay a b = (a = b)"

definition subDays :: "day \<Rightarrow> int \<Rightarrow> day" where
  "subDays d i = d - i"

definition format_EEE :: "day \<Rightarrow> string" where
  "format_EEE d =
     [''Sun'', ''Mon'', ''Tue'', ''Wed'', ''Thu'', ''Fri'', ''Sat''] ! nat ((d + 4) mod 7)"

section \<open>Daily Aggregator and Training-Load Detector (Dashboard, todayTotals)\<close>

record totals = MacroNutrients +
  burned :: number

definition todayLogs :: "(int \<Rightarrow> day) \<Rightarrow> int \<Rightarrow> LogEntry list \<Rightarrow> LogEntry list" where
  "todayLogs dayOf now logs =
     (let start = startOfDay (dayOf now)
      in filter (\<lambda>entry. isSameDay (dayOf (timestamp entry)) start) logs)"

text \<open>The body of \<open>forEach\<close>, and the callback of \<open>reduce\<close>, each mutating \<open>acc\<close>.\<close>

definition add_item :: "totals \<Rightarrow> FoodItem \<Rightarrow> totals" where
  "add_item acc item =
     acc\<lparr>calories := calories acc + calories item,
         protein := protein acc + protein item,
         carbs := carbs acc + carbs item,
         fat := fat acc + fat item\<rparr>"

definition add_log :: "totals \<Rightarrow> LogEntry \<Rightarrow> totals" where
  "add_log acc entry =
     (case (entry_type entry, items entry, exercise entry) of
        (Food, Some its, _) \<Rightarrow> foldl add_item acc its
      | (Exercise, _, Some ex) \<Rightarrow> acc\<lparr>burned := burned acc + caloriesBurned ex\<rparr>
      | _ \<Rightarrow> acc)"

definition zero_totals :: totals where
  "zero_totals = \<lparr>calories = Num 0, protein = Num 0, carbs = Num 0, fat = Num 0, burned = Num 0\<rparr>"

definition todayTotals :: "(int \<Rightarrow> day) \<Rightarrow> int \<Rightarrow> LogEntry list \<Rightarrow> totals" where
  "todayTotals dayOf now logs = foldl add_log zero_totals (todayLogs dayOf now logs)"

definition strength_entry :: "LogEntry \<Rightarrow> bool" where
  "strength_entry l =
     (entry_type l = Exercise \<and>
      (case exercise l of
         None \<Rightarrow> False
       | Some ex \<Rightarrow>
           intensity ex = high
           \<or> str_includes (toLowerCase (exercise_name ex)) ''weight''
           \<or> str_includes (toLowerCase (exercise_name ex)) ''strength''
           \<or> str_includes (toLowerCase (exercise_name ex)) ''lift''))"

definition hasStrength :: "LogEntry list \<Rightarrow> bool" where
  "hasStrength logs = list_ex strength_entry logs"

definition exerciseFocus_today :: "(int \<Rightarrow> day) \<Rightarrow> int \<Rightarrow> LogEntry list \<Rightarrow> bool" where
  "exerciseFocus_today dayOf now logs = hasStrength (todayLogs dayOf now logs)"

subsection \<open>The totals as the specification words them\<close>

text \<open>
  The sums are floating point: the sum of a sequence of numbers is accumulated from zero
  in the order of the sequence, and every addition rounds. The values summed for a day are
  those of the items of its food entries, in the order of the log store and of the items,
  and the calories burned of its exercise entries.
\<close>

definition spec_sum :: "number list \<Rightarrow> number" where
  "spec_sum xs = foldl (+) (Num 0) xs"

definition spec_day_entries :: "(int \<Rightarrow> day) \<Rightarrow> day \<Rightarrow> LogEntry list \<Rightarrow> LogEntry list" where
  "spec_day_entries dayOf d logs = [entry \<leftarrow> logs. dayOf (timestamp entry) = d]"

definition spec_food_items :: "LogEntry \<Rightarrow> FoodItem list" where
  "spec_food_items entry =
     (if entry_type entry = Food then (case items entry of None \<Rightarrow> [] | Some its \<Rightarrow> its) else [])"

definition spec_food_values :: "(FoodItem \<Rightarrow> number) \<Rightarrow> LogEntry list \<Rightarrow> number list" where
  "spec_food_values f entries = concat (map (\<lambda>entry. map f (spec_food_items entry)) entries)"

definition spec_burned :: "LogEntry \<Rightarrow> number list" where
  "spec_burned entry =
     (if entry_type entry = Exercise
      then (case exercise entry of None \<Rightarrow> [] | Some ex \<Rightarrow> [caloriesBurned ex]) else [])"

definition spec_burned_values :: "LogEntry list \<Rightarrow> number list" where
  "spec_burned_values entries = concat (map spec_burned entries)"

section \<open>Trend Window (Dashboard, chartData)\<close>

record point =
  point_name :: string
  point_calories :: number

definition food_calories :: "number \<Rightarrow> LogEntry \<Rightarrow> number" where
  "food_calories acc entry =
     (case (entry_type entry, items entry) of
        (Food, Some its) \<Rightarrow> acc + foldl (\<lambda>s item. s + calories item) (Num 0) its
      | _ \<Rightarrow> acc)"

definition chart_point :: "(int \<Rightarrow> day) \<Rightarrow> int \<Rightarrow> LogEntry list \<Rightarrow> int \<Rightarrow> point" where
  "chart_point dayOf now logs i =
     (let date = subDays (dayOf now) i;
          dailyLogs = filter (\<lambda>entry. isSameDay (dayOf (timestamp entry)) date) logs;
          cals = foldl food_calories (Num 0) dailyLogs
      in \<lparr>point_name = format_EEE date, point_calories = cals\<rparr>)"

function chart_loop ::
  "(int \<Rightarrow> day) \<Rightarrow> int \<Rightarrow> LogEntry list \<Rightarrow> int \<Rightarrow> point list \<Rightarrow> point list" where
  "chart_loop dayOf now logs i data =
     (if i \<ge> 0 then chart_loop dayOf now logs (i - 1) (data @ [chart_point dayOf now logs i])
      else data)"
  by pat_completeness auto
termination
  by (relation "measure (\<lambda>(dayOf, now, logs, i, data). nat (i + 1))") auto

declare chart_loop.simps [simp del]

definition chartData :: "(int \<Rightarrow> day) \<Rightarrow> int \<Rightarrow> LogEntry list \<Rightarrow> point list" where
  "chartData dayOf now logs = chart_loop dayOf now logs 6 []"

text \<open>
  The calories of a day in the trend window: the calories of a food entry are the sum of
  the calories of its items, and the calories of the day are the sum of the calories of
  its food entries; both sums are accumulated as above. Entries that are not food entries
  do not take part.
\<close>

definition spec_is_food :: "LogEntry \<Rightarrow> bool" where
  "spec_is_food entry = (entry_type entry = Food \<and> items entry \<noteq> None)"

definition spec_entry_calories :: "LogEntry \<Rightarrow> number" where
  "spec_entry_calories entry = spec_sum (map calories (spec_food_items entry))"

definition spec_day_food_calories :: "(int \<Rightarrow> day) \<Rightarrow> day \<Rightarrow> LogEntry list \<Rightarrow> number" where
  "spec_day_food_calories dayOf d logs =
     spec_sum (map spec_entry_calories (filter spec_is_food (spec_day_entries dayOf d logs)))"

section \<open>Target Engine (Dashboard, calorieTarget/macroTargets)\<close>

record macroTargets =
  target_protein :: number
  target_carbs :: number
  target_fat :: number

record targets =
  calorieTarget :: number
  macroTargets :: macroTargets
  adviceMessage :: string

definition activityMultipliers :: "activityLevel \<Rightarrow> number" where
  "activityMultipliers a =
     (case a of sedentary \<Rightarrow> lit 1.2 | light \<Rightarrow> lit 1.375 | moderate \<Rightarrow> lit 1.55
      | active \<Rightarrow> lit 1.725 | athlete \<Rightarrow> lit 1.9)"

text \<open>The two statements that compute \<open>bmr\<close>, and the one that computes \<open>tdee\<close>.\<close>

definition bmr :: "UserProfile \<Rightarrow> number" where
  "bmr profile =
     (let b = lit 10 * weightKg profile + lit 6.25 * heightCm profile - lit 5 * age profile
      in b + (if gender profile = male then lit 5 else lit (- 161)))"

definition tdee :: "UserProfile \<Rightarrow> number" where
  "tdee profile = Math_round (bmr profile * activityMultipliers (activityLevel profile))"

text \<open>
  The mutable locals \<open>target\<close>, \<open>msg\<close> and \<open>proteinFactor\<close> of the source, with their
  initial values, and the goal branch that assigns them.
\<close>

record goal_vars =
  target :: number
  msg :: string
  proteinFactor :: number

definition goal_branch :: "UserProfile \<Rightarrow> bool \<Rightarrow> goal_vars" where
  "goal_branch profile exerciseFocus =
     (let t = tdee profile;
          v = \<lparr>target = t, msg = '''', proteinFactor = lit 1.2\<rparr>
      in if goal profile = lose_fat then
           (if exerciseFocus then
              v\<lparr>target := t - lit 250, proteinFactor := lit 2.0,
                msg := ''Workout detected: Deficit reduced & Protein bumped for recovery.''\<rparr>
            else v\<lparr>target := t - lit 500, proteinFactor := lit 1.8\<rparr>)
         else if goal profile = gain_muscle then
           (let v1 = v\<lparr>target := t + lit 300, proteinFactor := lit 2.0\<rparr>
            in if exerciseFocus then
                 v1\<lparr>proteinFactor := lit 2.2, msg := ''Great work! Fuel up for growth.''\<rparr>
               else v1)
         else
           (let v1 = v\<lparr>proteinFactor := lit 1.4\<rparr>
            in if exerciseFocus then v1\<lparr>proteinFactor := lit 1.6\<rparr> else v1))"

definition targetEngine :: "UserProfile \<Rightarrow> bool \<Rightarrow> targets" where
  "targetEngine profile exerciseFocus =
     (let v = goal_branch profile exerciseFocus;
          targetProtein = Math_round (weightKg profile * proteinFactor v);
          targetFat = Math_round ((target v * lit 0.25) / lit 9);
          targetCarbs =
            Math_max (lit 0)
              (Math_round ((target v - (targetProtein * lit 4) - (targetFat * lit 9)) / lit 4))
      in \<lparr>calorieTarget = target v,
          macroTargets =
            \<lparr>target_protein = targetProtein, target_carbs = targetCarbs,
             target_fat = targetFat\<rparr>,
          adviceMessage = msg v\<rparr>)"

subsection \<open>The pipeline as the specification words it\<close>

text \<open>
  The formulas of the specification, evaluated as the language evaluates them: in double
  arithmetic, from left to right, multiplication and division before addition and
  subtraction.
\<close>

definition spec_bmr :: "UserProfile \<Rightarrow> number" where
  "spec_bmr p =
     lit 10 * weightKg p + lit 6.25 * heightCm p - lit 5 * age p
       + (if gender p = male then lit 5 else lit (- 161))"

definition spec_multiplier :: "activityLevel \<Rightarrow> number" where
  "spec_multiplier a =
     (if a = sedentary then lit 1.2 else if a = light then lit 1.375
      else if a = moderate then lit 1.55 else if a = active then lit 1.725 else lit 1.9)"

definition spec_tdee :: "UserProfile \<Rightarrow> number" where
  "spec_tdee p = Math_round (spec_bmr p * spec_multiplier (activityLevel p))"

definition spec_calorieTarget :: "UserProfile \<Rightarrow> bool \<Rightarrow> number" where
  "spec_calorieTarget p load =
     (case goal p of
        lose_fat \<Rightarrow> if load then spec_tdee p - lit 250 else spec_tdee p - lit 500
      | gain_muscle \<Rightarrow> spec_tdee p + lit 300
      | maintain \<Rightarrow> spec_tdee p)"

definition spec_proteinFactor :: "UserProfile \<Rightarrow> bool \<Rightarrow> number" where
  "spec_proteinFactor p load =
     (case goal p of
        lose_fat \<Rightarrow> if load then lit 2.0 else lit 1.8
      | gain_muscle \<Rightarrow> if load then lit 2.2 else lit 2.0
      | maintain \<Rightarrow> if load then lit 1.6 else lit 1.4)"

definition spec_advice :: "UserProfile \<Rightarrow> bool \<Rightarrow> string" where
  "spec_advice p load =
     (case goal p of
        lose_fat \<Rightarrow>
          if load then ''Workout detected: Deficit reduced & Protein bumped for recovery.''
          else ''''
      | gain_muscle \<Rightarrow> if load then ''Great work! Fuel up for growth.'' else ''''
      | maintain \<Rightarrow> '''')"

definition spec_targetProtein :: "UserProfile \<Rightarrow> bool \<Rightarrow> number" where
  "spec_targetProtein p load = Math_round (weightKg p * spec_proteinFactor p load)"

definition spec_targetFat :: "UserProfile \<Rightarrow> bool \<Rightarrow> number" where
  "spec_targetFat p load = Math_round (spec_calorieTarget p load * lit 0.25 / lit 9)"

definition spec_targetCarbs :: "UserProfile \<Rightarrow> bool \<Rightarrow> number" where
  "spec_targetCarbs p load =
     Math_max (lit 0)
       (Math_round ((spec_calorieTarget p load - spec_targetProtein p load * lit 4
                       - spec_targetFat p load * lit 9) / lit 4))"

text \<open>The default profile of the application (\<open>INITIAL_PROFILE\<close>).\<close>

definition INITIAL_PROFILE :: UserProfile where
  "INITIAL_PROFILE =
     \<lparr>profile_name = ''User'', age = Num 30, heightCm = Num 175, weightKg = Num 70,
      gender = male, activityLevel = moderate, goal = maintain,
      dietaryPreferences = ''none''\<rparr>"

text \<open>The profile of the worked example; the two text fields are arbitrary.\<close>

definition spec_example_profile :: "string \<Rightarrow> string \<Rightarrow> UserProfile" where
  "spec_example_profile n d =
     \<lparr>profile_name = n, age = Num 30, heightCm = Num 175, weightKg = Num 70, gender = male,
      activityLevel = moderate, goal = maintain, dietaryPreferences = d\<rparr>"

section \<open>Client-side scaling (EntryForm, updateItemQuantity)\<close>

text \<open>
  \<open>analyzedItems\<close> is \<open>null\<close> before an analysis, so it is an \<open>option\<close>. Reading the
  element at an index outside the array gives \<open>undefined\<close>, and the first assignment to a
  field of it throws a \<open>TypeError\<close>. The index, a position produced by \<open>map\<close>, is a natural
  number. The statements assign the five fields of the item in the order of the source;
  the base values are read and not written. The array is copied and the copy, with the
  assigned item in its place, becomes the new \<open>analyzedItems\<close>.
\<close>

datatype js_error = TypeError

definition scale_item :: "FoodItem \<Rightarrow> number \<Rightarrow> FoodItem" where
  "scale_item item newQty =
     item\<lparr>quantity := newQty,
          calories := Math_round (baseCalories item * newQty),
          protein := Math_round (baseProtein item * newQty * lit 10) / lit 10,
          carbs := Math_round (baseCarbs item * newQty * lit 10) / lit 10,
          fat := Math_round (baseFat item * newQty * lit 10) / lit 10\<rparr>"

definition updateItemQuantity ::
  "nat \<Rightarrow> number \<Rightarrow> FoodItem list option \<Rightarrow> js_error + FoodItem list option" where
  "updateItemQuantity index newQty analyzedItems =
     (case analyzedItems of
        None \<Rightarrow> Inr None
      | Some newItems \<Rightarrow>
          if index < length newItems
          then Inr (Some (newItems[index := scale_item (newItems ! index) newQty]))
          else Inl TypeError)"

text \<open>
  The invariant of a food item as the specification words it, in double arithmetic:
  \<open>round (base * quantity)\<close> for the calories and \<open>round (base * quantity * 10) / 10\<close> for
  the three macro values.
\<close>

definition spec_round1 :: "number \<Rightarrow> number" where
  "spec_round1 x = Math_round (x * lit 10) / lit 10"

definition spec_scaled :: "FoodItem \<Rightarrow> bool" where
  "spec_scaled item \<longleftrightarrow>
     calories item = Math_round (baseCalories item * quantity item)
     \<and> protein item = spec_round1 (baseProtein item * quantity item)
     \<and> carbs item = spec_round1 (baseCarbs item * quantity item)
     \<and> fat item = spec_round1 (baseFat item * quantity item)"

section \<open>Items from the remote estimator (geminiService, refineAnalyzedLogs)\<close>

text \<open>
  An item of a reply has the fields that the response schema of the server requires:
  the four macro values, a name, a numeric amount, a unit and a confidence, and an
  optional note. The callback of \<open>map\<close> turns it into a \<open>FoodItem\<close>: the amount, or 1
  when it is falsy, becomes the quantity, the macro values are copied as they come, and
  each base value is the quotient of the value and the quantity.
\<close>

record AnalyzedItem = MacroNutrients +
  analyzed_name :: string
  quantityAmount :: number
  quantityUnit :: string
  analyzed_confidence :: level
  analyzed_notes :: "string option"

definition refine_item :: "AnalyzedItem \<Rightarrow> FoodItem" where
  "refine_item item =
     (let qty = (if truthy_number (quantityAmount item) then quantityAmount item else lit 1)
      in \<lparr>calories = calories item, protein = protein item, carbs = carbs item,
          fat = fat item,
          food_name = analyzed_name item,
          quantity = qty,
          unit = (if quantityUnit item \<noteq> [] then quantityUnit item else ''serving''),
          baseCalories = calories item / qty,
          baseProtein = protein item / qty,
          baseCarbs = carbs item / qty,
          baseFat = fat item / qty,
          confidence = analyzed_confidence item,
          item_notes = analyzed_notes item\<rparr>)"

text \<open>
  \<open>refineAnalyzedLogs\<close> takes the outcome of its call to the server, a thrown error with
  its message or the reply, and the current items; the form stores the items it returns
  as the new \<open>analyzedItems\<close>.
\<close>

record refine_reply =
  updatedItems :: "AnalyzedItem list"
  assistantResponse :: string

definition refineAnalyzedLogs ::
  "string + refine_reply \<Rightarrow> FoodItem list \<Rightarrow> FoodItem list \<times> string" where
  "refineAnalyzedLogs called currentItems =
     (case called of
        Inr result \<Rightarrow> (map refine_item (updatedItems result), assistantResponse result)
      | Inl message \<Rightarrow> (currentItems, ''Error: '' @ message))"

text \<open>
  An apple of 52 kcal at quantity 1, which satisfies the invariant, and the reply to the
  instruction to make it two apples.
\<close>

definition one_apple :: FoodItem where
  "one_apple =
     \<lparr>calories = Num 52, protein = lit 0.4, carbs = lit 13.8, fat = lit 0.2,
      food_name = ''Apple'', quantity = Num 1, unit = ''serving'', baseCalories = Num 52,
      baseProtein = lit 0.35, baseCarbs = lit 13.8, baseFat = lit 0.2, confidence = high,
      item_notes = None\<rparr>"

definition two_apples_reply :: refine_reply where
  "two_apples_reply =
     \<lparr>updatedItems =
        [\<lparr>calories = Num 105.5, protein = lit 0.7, carbs = lit 27.6, fat = lit 0.4,
          analyzed_name = ''Apple'', quantityAmount = Num 2, quantityUnit = ''serving'',
          analyzed_confidence = high, analyzed_notes = None\<rparr>],
      assistantResponse = ''Updated to two apples.''\<rparr>"

section \<open>Backup and restore (App, exportData and importData)\<close>

text \<open>
  Values that cross the JSON boundary are JSON values. An object is the list of its
  members as \<open>JSON.parse\<close> delivers it, with one entry for each key. A backup document is
  represented by the JSON value it denotes: the text that \<open>JSON.stringify\<close> writes for a
  JSON value parses back to that value. The state of the application holds the profile,
  the log store and the chat transcript in this form (their form after JSON
  normalisation); \<open>alerts\<close> records the messages shown to the user, oldest first.
\<close>

datatype json =
  JNull | JBool bool | JNum rat | JStr string | JArr "json list" | JObj "(string \<times> json) list"

fun truthy :: "json \<Rightarrow> bool" where
  "truthy JNull = False"
| "truthy (JBool b) = b"
| "truthy (JNum n) = (n \<noteq> 0)"
| "truthy (JStr s) = (s \<noteq> [])"
| "truthy (JArr xs) = True"
| "truthy (JObj fs) = True"

text \<open>
  \<open>member v k\<close> is the expression \<open>v.k\<close> for the keys this program reads (\<open>profile\<close>,
  \<open>logs\<close>, \<open>error\<close>, \<open>calories\<close>, \<open>note\<close>), none of which a string, a number, a boolean, an
  array or \<open>Object.prototype\<close> has: reading a member of \<open>null\<close> throws, an object yields
  the member or \<open>undefined\<close> (\<open>None\<close>), every other value yields \<open>undefined\<close>.
\<close>

fun member :: "json \<Rightarrow> string \<Rightarrow> js_error + json option" where
  "member JNull k = Inl TypeError"
| "member (JObj fs) k = Inr (map_of fs k)"
| "member v k = Inr None"

definition truthy_opt :: "json option \<Rightarrow> bool" where
  "truthy_opt v = (case v of None \<Rightarrow> False | Some x \<Rightarrow> truthy x)"

record app_state =
  st_profile :: json
  st_logs :: json
  st_chatHistory :: json
  alerts :: "string list"

definition alert :: "string \<Rightarrow> app_state \<Rightarrow> app_state" where
  "alert m st = st\<lparr>alerts := alerts st @ [m]\<rparr>"

definition exportData :: "app_state \<Rightarrow> json" where
  "exportData st = JObj [(''profile'', st_profile st), (''logs'', st_logs st)]"

text \<open>
  \<open>JSON.parse\<close> either throws a \<open>SyntaxError\<close> or delivers a value. \<open>importData\<close> takes
  the selected file, if any, in this form. Every exception raised inside the \<open>try\<close> block,
  the \<open>TypeError\<close> of \<open>data.profile\<close> on \<open>null\<close> included, reaches the one \<open>catch\<close> clause.
\<close>

datatype parse_result = SyntaxError | Parsed json

definition importData :: "parse_result option \<Rightarrow> app_state \<Rightarrow> app_state" where
  "importData file st =
     (case file of
        None \<Rightarrow> st
      | Some SyntaxError \<Rightarrow> alert ''Failed to parse backup file.'' st
      | Some (Parsed data) \<Rightarrow>
          (case member data ''profile'' of
             Inl err \<Rightarrow> alert ''Failed to parse backup file.'' st
           | Inr p \<Rightarrow>
               if \<not> truthy_opt p then alert ''Invalid backup file format.'' st
               else
                 (case member data ''logs'' of
                    Inl err \<Rightarrow> alert ''Failed to parse backup file.'' st
                  | Inr l \<Rightarrow>
                      if \<not> truthy_opt l then alert ''Invalid backup file format.'' st
                      else alert ''Data restored successfully!''
                             (st\<lparr>st_profile := the p, st_logs := the l\<rparr>))))"

text \<open>
  The JSON form of the typed data: what \<open>JSON.stringify\<close> writes for a profile and for a
  log store. A field that is \<open>undefined\<close> is left out; a number that is not finite is
  written as \<open>null\<close>.
\<close>

definition number_json :: "number \<Rightarrow> json" where
  "number_json a = (case a of Num x \<Rightarrow> JNum x | _ \<Rightarrow> JNull)"

definition gender_json :: "gender \<Rightarrow> json" where
  "gender_json g = JStr (case g of male \<Rightarrow> ''male'' | female \<Rightarrow> ''female'' | other \<Rightarrow> ''other'')"

definition activityLevel_json :: "activityLevel \<Rightarrow> json" where
  "activityLevel_json a =
     JStr (case a of sedentary \<Rightarrow> ''sedentary'' | light \<Rightarrow> ''light'' | moderate \<Rightarrow> ''moderate''
           | active \<Rightarrow> ''active'' | athlete \<Rightarrow> ''athlete'')"

definition goal_json :: "goal \<Rightarrow> json" where
  "goal_json g =
     JStr (case g of lose_fat \<Rightarrow> ''lose_fat'' | maintain \<Rightarrow> ''maintain''
           | gain_muscle \<Rightarrow> ''gain_muscle'')"

definition level_json :: "level \<Rightarrow> json" where
  "level_json v = JStr (case v of low \<Rightarrow> ''low'' | medium \<Rightarrow> ''medium'' | high \<Rightarrow> ''high'')"

definition entryType_json :: "entryType \<Rightarrow> json" where
  "entryType_json t =
     JStr (case t of Food \<Rightarrow> ''food'' | Exercise \<Rightarrow> ''exercise'' | Note \<Rightarrow> ''note'')"

definition optional :: "string \<Rightarrow> ('a \<Rightarrow> json) \<Rightarrow> 'a option \<Rightarrow> (string \<times> json) list" where
  "optional k f v = (case v of None \<Rightarrow> [] | Some x \<Rightarrow> [(k, f x)])"

definition profile_json :: "UserProfile \<Rightarrow> json" where
  "profile_json p =
     JObj [(''name'', JStr (profile_name p)), (''age'', number_json (age p)),
           (''heightCm'', number_json (heightCm p)), (''weightKg'', number_json (weightKg p)),
           (''gender'', gender_json (gender p)),
           (''activityLevel'', activityLevel_json (activityLevel p)),
           (''goal'', goal_json (goal p)),
           (''dietaryPreferences'', JStr (dietaryPreferences p))]"

definition foodItem_json :: "FoodItem \<Rightarrow> json" where
  "foodItem_json item =
     JObj ([(''name'', JStr (food_name item)), (''quantity'', number_json (quantity item)),
            (''unit'', JStr (unit item)), (''calories'', number_json (calories item)),
            (''protein'', number_json (protein item)), (''carbs'', number_json (carbs item)),
            (''fat'', number_json (fat item)), (''baseCalories'', number_json (baseCalories item)),
            (''baseProtein'', number_json (baseProtein item)), (''baseCarbs'', number_json (baseCarbs item)),
            (''baseFat'', number_json (baseFat item)), (''confidence'', level_json (confidence item))]
           @ optional ''notes'' JStr (item_notes item))"

definition exercise_json :: "ExerciseItem \<Rightarrow> json" where
  "exercise_json ex =
     JObj [(''name'', JStr (exercise_name ex)), (''durationMinutes'', number_json (durationMinutes ex)),
           (''caloriesBurned'', number_json (caloriesBurned ex)),
           (''intensity'', level_json (intensity ex))]"

definition entry_json :: "LogEntry \<Rightarrow> json" where
  "entry_json e =
     JObj ([(''id'', JStr (id e)), (''timestamp'', JNum (of_int (timestamp e))),
            (''type'', entryType_json (entry_type e))]
           @ optional ''items'' (\<lambda>its. JArr (map foodItem_json its)) (items e)
           @ optional ''exercise'' exercise_json (exercise e)
           @ optional ''noteContent'' JStr (noteContent e)
           @ optional ''image'' JStr (image e))"

definition logs_json :: "LogEntry list \<Rightarrow> json" where
  "logs_json es = JArr (map entry_json es)"

text \<open>
  The shape of a backup document in the words of the specification: an object with a
  member \<open>profile\<close> that is an object, as a profile is, and a member \<open>logs\<close> that is an
  array, as a log store is.
\<close>

definition spec_recognizable :: "parse_result \<Rightarrow> bool" where
  "spec_recognizable r =
     (case r of
        Parsed (JObj fs) \<Rightarrow>
          (case (map_of fs ''profile'', map_of fs ''logs'') of
             (Some (JObj p), Some (JArr l)) \<Rightarrow> True
           | _ \<Rightarrow> False)
      | _ \<Rightarrow> False)"

text \<open>
  The documents of the amended claim: an object with a member \<open>profile\<close> and a member
  \<open>logs\<close>, neither of them \<open>null\<close>, \<open>false\<close>, zero or the empty string.
\<close>

definition has_profile_and_logs :: "parse_result \<Rightarrow> bool" where
  "has_profile_and_logs r =
     (case r of
        Parsed (JObj fs) \<Rightarrow>
          (case (map_of fs ''profile'', map_of fs ''logs'') of
             (Some p, Some l) \<Rightarrow> p \<notin> {JNull, JBool False, JNum 0, JStr ''''}
                                  \<and> l \<notin> {JNull, JBool False, JNum 0, JStr ''''}
           | _ \<Rightarrow> False)
      | _ \<Rightarrow> False)"

definition spec_error_messages :: "string set" where
  "spec_error_messages = {''Invalid backup file format.'', ''Failed to parse backup file.''}"

section \<open>Remote estimator transport (geminiService, callApi)\<close>

text \<open>
  One \<open>fetch\<close> either rejects with an error that has a message, or resolves with a
  response. Of a response the wrapper reads the status, the \<open>content-type\<close> header (which
  may be absent), the result of \<open>response.json()\<close> (a rejection message or a value) and
  the result of \<open>response.text()\<close>. \<open>response.ok\<close> holds for the statuses 200 to 299.
\<close>

record response =
  status :: nat
  content_type :: "string option"
  json_result :: "string + json"
  text_result :: string

definition ok :: "response \<Rightarrow> bool" where
  "ok r = (200 \<le> status r \<and> status r \<le> 299)"

datatype fetch_result = Rejected string | Resolved response

text \<open>
  Two conversions are the platform's: \<open>ToString\<close>, which \<open>new Error(v)\<close> applies to a
  value to obtain the message, and the message of the \<open>TypeError\<close> for reading a member of
  \<open>null\<close>. They are parameters of the model.
\<close>

record platform =
  ToString :: "json \<Rightarrow> string"
  null_member_message :: string

text \<open>The decimal digits of a status code, as a template literal writes it.\<close>

fun show_nat :: "nat \<Rightarrow> string" where
  "show_nat n =
     (if n < 10 then [char_of (48 + n)] else show_nat (n div 10) @ [char_of (48 + n mod 10)])"

declare show_nat.simps [simp del]

definition busy_message :: "nat \<Rightarrow> string" where
  "busy_message s = ''Server is busy (Status '' @ show_nat s @ '')''"

text \<open>The message of \<open>new Error(data.error || 'API request failed')\<close>.\<close>

definition error_text :: "platform \<Rightarrow> json \<Rightarrow> string" where
  "error_text pf data =
     (case member data ''error'' of
        Inl err \<Rightarrow> null_member_message pf
      | Inr v \<Rightarrow> if truthy_opt v then ToString pf (the v) else ''API request failed'')"

text \<open>
  The \<open>try\<close> block of one iteration: \<open>Inr data\<close> is \<open>return data\<close>, \<open>Inl m\<close> is an error with
  message \<open>m\<close> thrown to the \<open>catch\<close> clause.
\<close>

definition attempt :: "platform \<Rightarrow> fetch_result \<Rightarrow> string + json" where
  "attempt pf fr =
     (case fr of
        Rejected m \<Rightarrow> Inl m
      | Resolved r \<Rightarrow>
          if status r = 429 \<or> status r = 503 then Inl (busy_message (status r))
          else if (case content_type r of
                     None \<Rightarrow> False
                   | Some ct \<Rightarrow> ct \<noteq> [] \<and> str_includes ct ''application/json'')
          then (case json_result r of
                  Inl m \<Rightarrow> Inl m
                | Inr data \<Rightarrow> if \<not> ok r then Inl (error_text pf data) else Inr data)
          else Inl (if length (text_result r) < 200 then text_result r
                    else ''Server Error ('' @ show_nat (status r) @ ''): Check Vercel logs.''))"

definition isRateLimit :: "string \<Rightarrow> bool" where
  "isRateLimit message =
     (str_includes message ''429'' \<or> str_includes message ''503''
      \<or> str_includes message ''busy'')"

text \<open>
  A run of \<open>callApi\<close>: what it returns or throws (\<open>Inl m\<close> is the thrown error, \<open>Inr None\<close>
  is \<open>undefined\<close>, returned when the loop body never runs), the number of \<open>fetch\<close> calls it
  made, and the delays in milliseconds it waited, in order. The network is the function
  \<open>net\<close>: \<open>net i\<close> is the result of the \<open>fetch\<close> of iteration \<open>i\<close>. The action and the
  payload only travel to the server and do not appear.
\<close>

record api_run =
  outcome :: "string + json option"
  fetches :: nat
  delays :: "nat list"

function callApi_loop ::
  "platform \<Rightarrow> (nat \<Rightarrow> fetch_result) \<Rightarrow> nat \<Rightarrow> nat \<Rightarrow> nat list \<Rightarrow> api_run" where
  "callApi_loop pf net retries i waited =
     (if i < retries then
        (case attempt pf (net i) of
           Inr data \<Rightarrow> \<lparr>outcome = Inr (Some data), fetches = i + 1, delays = waited\<rparr>
         | Inl message \<Rightarrow>
             if i = retries - 1
             then \<lparr>outcome = Inl message, fetches = i + 1, delays = waited\<rparr>
             else if \<not> isRateLimit message \<and> i > 0
             then \<lparr>outcome = Inl message, fetches = i + 1, delays = waited\<rparr>
             else callApi_loop pf net retries (i + 1) (waited @ [2 ^ (i + 1) * 1500]))
      else \<lparr>outcome = Inr None, fetches = i, delays = waited\<rparr>)"
  by pat_completeness auto
termination
  by (relation "measure (\<lambda>(pf, net, retries, i, waited). retries - i)") auto

declare callApi_loop.simps [simp del]

definition callApi :: "platform \<Rightarrow> (nat \<Rightarrow> fetch_result) \<Rightarrow> nat \<Rightarrow> api_run" where
  "callApi pf net retries = callApi_loop pf net retries 0 []"

text \<open>
  The retry decision after a failed iteration \<open>i\<close> of a call that allows \<open>retries\<close>
  attempts, in the words of the amended claim: another attempt remains, and the failure is
  transient or it is the failure of the first attempt.
\<close>

definition spec_retried :: "nat \<Rightarrow> nat \<Rightarrow> string \<Rightarrow> bool" where
  "spec_retried retries i message \<longleftrightarrow> i + 1 < retries \<and> (isRateLimit message \<or> i = 0)"

text \<open>
  The schedule of the amended claim: the delay after the failed iteration \<open>i\<close> is
  \<open>3000 * 2 ^ i\<close> ms, and iteration \<open>k\<close> of a run either returns its data, or is
  followed by another iteration when the failure is retried, or ends the run with its error.
\<close>

definition spec_backoff :: "nat \<Rightarrow> nat" where
  "spec_backoff i = 3000 * 2 ^ i"

definition spec_step ::
  "platform \<Rightarrow> (nat \<Rightarrow> fetch_result) \<Rightarrow> nat \<Rightarrow> api_run \<Rightarrow> nat \<Rightarrow> bool" where
  "spec_step pf net retries run k =
     (case attempt pf (net k) of
        Inr data \<Rightarrow> fetches run = k + 1 \<and> outcome run = Inr (Some data)
      | Inl m \<Rightarrow>
          if spec_retried retries k m then k + 1 < fetches run
          else fetches run = k + 1 \<and> outcome run = Inl m)"

text \<open>
  Concrete networks for the instances below: a platform given on the strings and objects
  that occur, a successful reply to an estimate request, a reply with status 503, a
  server that answers 503 once, a server that answers 400 (\<open>Missing request body\<close>) once,
  and a network that is down.
\<close>

definition example_platform :: platform where
  "example_platform =
     \<lparr>ToString = (\<lambda>v. case v of JStr s \<Rightarrow> s | JObj fs \<Rightarrow> ''[object Object]'' | _ \<Rightarrow> ''''),
      null_member_message = ''Cannot read properties of null''\<rparr>"

definition estimate_reply :: response where
  "estimate_reply =
     \<lparr>status = 200, content_type = Some ''application/json'',
      json_result = Inr (JObj [(''calories'', JNum 240), (''note'', JStr ''Moderate run'')]),
      text_result = ''''\<rparr>"

definition busy_reply :: response where
  "busy_reply =
     \<lparr>status = 503, content_type = Some ''text/plain'',
      json_result = Inl ''Unexpected token'', text_result = ''Service Unavailable''\<rparr>"

definition busy_then_ok :: "nat \<Rightarrow> fetch_result" where
  "busy_then_ok k = (if k = 0 then Resolved busy_reply else Resolved estimate_reply)"

definition bad_request_then_ok :: "nat \<Rightarrow> fetch_result" where
  "bad_request_then_ok k =
     (if k = 0 then
        Resolved \<lparr>status = 400, content_type = Some ''application/json'',
                  json_result = Inr (JObj [(''error'', JStr ''Missing request body'')]),
                  text_result = ''''\<rparr>
      else Resolved estimate_reply)"

definition offline :: "nat \<Rightarrow> fetch_result" where
  "offline k = Rejected ''Failed to fetch''"

section \<open>Exercise estimate (geminiService, estimateExerciseCalories)\<close>

text \<open>
  \<open>intensityMultipliers[intensity]\<close> reads a property of an object literal: one of its own
  three numbers, a member inherited from \<open>Object.prototype\<close> when the string names one
  (a function, or the prototype itself for \<open>__proto__\<close>), and \<open>undefined\<close> otherwise. An
  inherited member is truthy, and in arithmetic it converts to \<open>NaN\<close>, which every
  operation and \<open>Math.round\<close> hand on.
\<close>

datatype property = Undefined | OwnNumber number | Inherited

definition Object_prototype_keys :: "string list" where
  "Object_prototype_keys =
     [''constructor'', ''hasOwnProperty'', ''isPrototypeOf'', ''propertyIsEnumerable'',
      ''toLocaleString'', ''toString'', ''valueOf'', ''__proto__'', ''__defineGetter__'',
      ''__defineSetter__'', ''__lookupGetter__'', ''__lookupSetter__'']"

definition intensityMultipliers :: "string \<Rightarrow> property" where
  "intensityMultipliers k =
     (if k = ''low'' then OwnNumber (lit 4)
      else if k = ''medium'' then OwnNumber (lit 8)
      else if k = ''high'' then OwnNumber (lit 12)
      else if k \<in> set Object_prototype_keys then Inherited
      else Undefined)"

text \<open>The expression \<open>intensityMultipliers[intensity] || 6\<close>.\<close>

definition met :: "string \<Rightarrow> property" where
  "met intensity' =
     (case intensityMultipliers intensity' of
        Undefined \<Rightarrow> OwnNumber (lit 6)
      | OwnNumber m \<Rightarrow> if truthy_number m then OwnNumber m else OwnNumber (lit 6)
      | Inherited \<Rightarrow> Inherited)"

text \<open>The conversion of an operand of \<open>*\<close> to a number.\<close>

definition ToNumber :: "property \<Rightarrow> number" where
  "ToNumber v = (case v of OwnNumber m \<Rightarrow> m | _ \<Rightarrow> NaN)"

definition estCalories :: "number \<Rightarrow> string \<Rightarrow> UserProfile \<Rightarrow> number" where
  "estCalories duration intensity' profile =
     Math_round
       ((ToNumber (met intensity') * lit 3.5 * weightKg profile) / lit 200 * duration)"

text \<open>
  A field of the result is a number computed here or a value taken from the reply.
\<close>

datatype js_value = Number number | J json

record estimate =
  est_calories :: js_value
  est_note :: json

text \<open>The expression \<open>v || d\<close> for a member \<open>v\<close> that may be \<open>undefined\<close>.\<close>

definition or_default :: "json option \<Rightarrow> json \<Rightarrow> json" where
  "or_default v d = (if truthy_opt v then the v else d)"

text \<open>
  The \<open>try\<close> block: the call with two attempts, then the two member reads. A thrown error
  of \<open>callApi\<close>, and the \<open>TypeError\<close> of reading a member of \<open>undefined\<close> or \<open>null\<close>, leave
  the block (\<open>Inl\<close>). The \<open>catch\<close> clause computes the local estimate and throws nothing.
\<close>

definition estimate_try :: "platform \<Rightarrow> (nat \<Rightarrow> fetch_result) \<Rightarrow> string + estimate" where
  "estimate_try pf net =
     (case outcome (callApi pf net 2) of
        Inl message \<Rightarrow> Inl message
      | Inr None \<Rightarrow> Inl (null_member_message pf)
      | Inr (Some result) \<Rightarrow>
          (case member result ''calories'' of
             Inl err \<Rightarrow> Inl (null_member_message pf)
           | Inr c \<Rightarrow>
               (case member result ''note'' of
                  Inl err \<Rightarrow> Inl (null_member_message pf)
                | Inr n \<Rightarrow>
                    Inr \<lparr>est_calories = J (or_default c (JNum 0)),
                         est_note = or_default n (JStr '''')\<rparr>)))"

definition estimateExerciseCalories ::
  "platform \<Rightarrow> (nat \<Rightarrow> fetch_result) \<Rightarrow> string \<Rightarrow> number \<Rightarrow> string \<Rightarrow> UserProfile
     \<Rightarrow> string + estimate" where
  "estimateExerciseCalories pf net name duration intensity' profile =
     (case estimate_try pf net of
        Inr result \<Rightarrow> Inr result
      | Inl e \<Rightarrow>
          Inr \<lparr>est_calories = Number (estCalories duration intensity' profile),
               est_note = JStr ''Offline estimate (API unavailable).''\<rparr>)"

text \<open>
  The local estimate as the claim words it, with 6 for every other intensity, in double
  arithmetic.
\<close>

definition spec_met :: "string \<Rightarrow> number" where
  "spec_met intensity' =
     (if intensity' = ''low'' then lit 4 else if intensity' = ''medium'' then lit 8
      else if intensity' = ''high'' then lit 12 else lit 6)"

definition spec_local_estimate :: "number \<Rightarrow> string \<Rightarrow> UserProfile \<Rightarrow> number" where
  "spec_local_estimate duration intensity' profile =
     Math_round ((spec_met intensity' * lit 3.5 * weightKg profile) / lit 200 * duration)"

section \<open>Theorems\<close>

subsection \<open>Double arithmetic at known values\<close>

text \<open>
  The rounding of the model at values where exact arithmetic would differ:
  \<open>0.1 + 0.2\<close> is \<open>0.30000000000000004\<close>, \<open>42.5 * 1.4\<close> is below \<open>59.5\<close> and rounds to 59,
  \<open>0.35 * 3 * 10\<close> is below \<open>10.5\<close> and rounds to 10, \<open>52.3 + 19.9\<close> is
  \<open>72.19999999999999\<close>, and the small integers are exact.
\<close>

lemma double_examples:
  "lit 0.1 + lit 0.2 = Num (1351079888211149 / 4503599627370496)"
  "Math_round (lit 42.5 * lit 1.4) = Num 59"
  "Math_round (lit 0.35 * lit 3 * lit 10) / lit 10 = Num 1"
  "lit 52.3 + lit 19.9 = Num (1270155832406835 / 17592186044416)"
  by code_simp+

text \<open>
  Ties go to the even significand: \<open>2 ^ 53 + 1\<close> rounds down to \<open>2 ^ 53\<close>, and
  \<open>2 ^ 53 + 3\<close> rounds up to \<open>2 ^ 53 + 4\<close>, also below zero.
\<close>

lemma double_ties:
  "fl 9007199254740993 = Num 9007199254740992"
  "fl 9007199254740995 = Num 9007199254740996"
  "fl (- 9007199254740995) = Num (- 9007199254740996)"
  "fl (1 / 3) = Num (6004799503160661 / 18014398509481984)"
  by code_simp+

lemma lit_small:
  "lit 0 = Num 0" "lit 4 = Num 4" "lit 6 = Num 6" "lit 8 = Num 8" "lit 12 = Num 12"
  by code_simp+

subsection \<open>Target Engine\<close>

lemma bmr_spec: "bmr p = spec_bmr p"
  by (simp add: bmr_def spec_bmr_def)

lemma multiplier_spec: "activityMultipliers a = spec_multiplier a"
  by (cases a) (simp_all add: activityMultipliers_def spec_multiplier_def)

lemma tdee_spec: "tdee p = spec_tdee p"
  by (simp add: tdee_def spec_tdee_def bmr_spec multiplier_spec)

lemma goal_branch_target: "target (goal_branch p load) = spec_calorieTarget p load"
  by (cases "goal p") (simp_all add: goal_branch_def spec_calorieTarget_def tdee_spec Let_def)

lemma goal_branch_proteinFactor: "proteinFactor (goal_branch p load) = spec_proteinFactor p load"
  by (cases "goal p") (simp_all add: goal_branch_def spec_proteinFactor_def Let_def)

lemma goal_branch_msg: "msg (goal_branch p load) = spec_advice p load"
  by (cases "goal p") (simp_all add: goal_branch_def spec_advice_def Let_def)

text \<open>
  C1. For every profile and every training-load flag, the Target Engine returns the values
  of the specified pipeline, computed in the arithmetic of the source: the Mifflin-St Jeor
  \<open>bmr\<close> with the offset 5 for male and -161 otherwise, the rounded product with the
  activity multiplier, the calorie target, protein factor and advice message of the goal
  branch, and the three rounded macro targets, the carbohydrate target floored at zero.
\<close>

theorem targetEngine_pipeline:
  "targetEngine p load =
     \<lparr>calorieTarget = spec_calorieTarget p load,
      macroTargets =
        \<lparr>target_protein = spec_targetProtein p load,
         target_carbs = spec_targetCarbs p load,
         target_fat = spec_targetFat p load\<rparr>,
      adviceMessage = spec_advice p load\<rparr>
   \<and> bmr p = spec_bmr p \<and> tdee p = spec_tdee p"
proof -
  let ?v = "goal_branch p load"
  have prot: "Math_round (weightKg p * proteinFactor ?v) = spec_targetProtein p load"
    by (simp add: goal_branch_proteinFactor spec_targetProtein_def)
  have fat: "Math_round ((target ?v * lit 0.25) / lit 9) = spec_targetFat p load"
    by (simp add: goal_branch_target spec_targetFat_def)
  have carbs:
    "Math_max (lit 0) (Math_round ((target ?v - spec_targetProtein p load * lit 4
        - spec_targetFat p load * lit 9) / lit 4)) = spec_targetCarbs p load"
    by (simp add: spec_targetCarbs_def goal_branch_target)
  show ?thesis
    unfolding targetEngine_def Let_def
    unfolding prot
    unfolding fat
    unfolding carbs
    by (simp add: goal_branch_target goal_branch_msg bmr_spec tdee_spec)
qed

text \<open>
  An instance where the rounding of the source shows: for 42.5 kg the product
  \<open>42.5 * 1.4\<close> is the double below 59.5, so the protein target is 59 and the
  carbohydrate target 213, where exact arithmetic would give 60 and 212.
\<close>

lemma targetEngine_rounding_example:
  "targetEngine
     (INITIAL_PROFILE\<lparr>weightKg := lit 42.5, gender := female, activityLevel := sedentary\<rparr>)
     False
   = \<lparr>calorieTarget = Num 1449,
      macroTargets =
        \<lparr>target_protein = Num 59, target_carbs = Num 213, target_fat = Num 40\<rparr>,
      adviceMessage = ''''\<rparr>"
  by code_simp

subsection \<open>The worked example\<close>

text \<open>
  C2 (as amended). For the profile with weight 70 kg, height 175 cm, age 30, male, moderate
  activity and goal maintain, without training load, \<open>bmr\<close> is
  \<open>700 + 1093.75 - 150 + 5 = 1648.75\<close> and the rounded product with 1.55 is 2556. The
  engine returns the calorie target 2556, 98 g protein, 71 g fat and 381 g carbohydrate.
\<close>

theorem targetEngine_example:
  "targetEngine (spec_example_profile n d) False =
     \<lparr>calorieTarget = Num 2556,
      macroTargets =
        \<lparr>target_protein = Num 98, target_carbs = Num 381, target_fat = Num 71\<rparr>,
      adviceMessage = ''''\<rparr>
   \<and> bmr (spec_example_profile n d) = Num 1648.75
   \<and> tdee (spec_example_profile n d) = Num 2556"
proof -
  let ?P = "spec_example_profile n d"
  have b: "lit 10 * Num 70 + lit 6.25 * Num 175 - lit 5 * Num 30 + lit 5 = Num 1648.75"
    by code_simp
  have bm: "bmr ?P = Num 1648.75"
    using b by (simp add: bmr_def spec_example_profile_def)
  have t: "Math_round (Num 1648.75 * lit 1.55) = Num 2556"
    by code_simp
  have td: "tdee ?P = Num 2556"
    unfolding tdee_def bm using t by (simp add: activityMultipliers_def spec_example_profile_def)
  have g: "goal_branch ?P False = \<lparr>target = Num 2556, msg = '''', proteinFactor = lit 1.4\<rparr>"
    by (simp add: goal_branch_def td Let_def) (simp add: spec_example_profile_def)
  have p: "Math_round (weightKg ?P * lit 1.4) = Num 98"
  proof -
    have "Math_round (Num 70 * lit 1.4) = Num 98" by code_simp
    then show ?thesis by (simp add: spec_example_profile_def)
  qed
  have f: "Math_round ((Num 2556 * lit 0.25) / lit 9) = Num 71"
    by code_simp
  have c: "Math_max (lit 0) (Math_round ((Num 2556 - (Num 98 * lit 4) - (Num 71 * lit 9)) / lit 4))
      = Num 381"
    by code_simp
  have "targetEngine ?P False =
     \<lparr>calorieTarget = Num 2556,
      macroTargets =
        \<lparr>target_protein = Num 98, target_carbs = Num 381, target_fat = Num 71\<rparr>,
      adviceMessage = ''''\<rparr>"
    unfolding targetEngine_def g Let_def
    by (simp only: goal_vars.simps p f c)
  with bm td show ?thesis by simp
qed

text \<open>
  The values the example states (2625, 98, 73, 394, with \<open>bmr\<close> 1693.75 and the rounded
  product 2625) are not what the engine returns for the default profile, which is the
  profile of the example.
\<close>

theorem targetEngine_example_counterexample:
  "\<not> (calorieTarget (targetEngine INITIAL_PROFILE False) = Num 2625
      \<and> target_protein (macroTargets (targetEngine INITIAL_PROFILE False)) = Num 98
      \<and> target_fat (macroTargets (targetEngine INITIAL_PROFILE False)) = Num 73
      \<and> target_carbs (macroTargets (targetEngine INITIAL_PROFILE False)) = Num 394
      \<and> bmr INITIAL_PROFILE = Num 1693.75
      \<and> tdee INITIAL_PROFILE = Num 2625)"
  by code_simp

subsection \<open>Daily Aggregator\<close>

lemma foldl_add_item:
  "foldl add_item acc its =
     acc\<lparr>calories := foldl (+) (calories acc) (map calories its),
         protein := foldl (+) (protein acc) (map protein its),
         carbs := foldl (+) (carbs acc) (map carbs its),
         fat := foldl (+) (fat acc) (map fat its)\<rparr>"
  by (induction its arbitrary: acc) (simp_all add: add_item_def)

lemma add_log_eq:
  "add_log acc e =
     acc\<lparr>calories := foldl (+) (calories acc) (map calories (spec_food_items e)),
         protein := foldl (+) (protein acc) (map protein (spec_food_items e)),
         carbs := foldl (+) (carbs acc) (map carbs (spec_food_items e)),
         fat := foldl (+) (fat acc) (map fat (spec_food_items e)),
         burned := foldl (+) (burned acc) (spec_burned e)\<rparr>"
  by (cases "entry_type e"; cases "items e"; cases "exercise e")
     (simp_all add: add_log_def spec_food_items_def spec_burned_def foldl_add_item)

lemma foldl_add_log:
  "foldl add_log acc es =
     acc\<lparr>calories := foldl (+) (calories acc) (spec_food_values calories es),
         protein := foldl (+) (protein acc) (spec_food_values protein es),
         carbs := foldl (+) (carbs acc) (spec_food_values carbs es),
         fat := foldl (+) (fat acc) (spec_food_values fat es),
         burned := foldl (+) (burned acc) (spec_burned_values es)\<rparr>"
proof (induction es arbitrary: acc)
  case Nil
  show ?case by (simp add: spec_food_values_def spec_burned_values_def)
next
  case (Cons e es)
  show ?case
    by (simp only: foldl_Cons Cons.IH)
       (simp add: add_log_eq spec_food_values_def spec_burned_values_def)
qed

lemma todayLogs_spec: "todayLogs dayOf now logs = spec_day_entries dayOf (dayOf now) logs"
  by (simp add: todayLogs_def spec_day_entries_def isSameDay_def startOfDay_def)

text \<open>
  C3. For every log store, the totals of the day of \<open>now\<close> are the sums, over the entries
  whose timestamp falls in that day, of the calories, protein, carbohydrate and fat of the
  items of the food entries and of the calories burned of the exercise entries; a note
  entry adds nothing. The sums are the floating-point sums of the source, accumulated in
  the order of the log store. When no entry falls in the day, the totals are all zero.
\<close>

theorem todayTotals_sums:
  "todayTotals dayOf now logs =
     \<lparr>calories = spec_sum (spec_food_values calories (spec_day_entries dayOf (dayOf now) logs)),
      protein = spec_sum (spec_food_values protein (spec_day_entries dayOf (dayOf now) logs)),
      carbs = spec_sum (spec_food_values carbs (spec_day_entries dayOf (dayOf now) logs)),
      fat = spec_sum (spec_food_values fat (spec_day_entries dayOf (dayOf now) logs)),
      burned = spec_sum (spec_burned_values (spec_day_entries dayOf (dayOf now) logs))\<rparr>
   \<and> (spec_day_entries dayOf (dayOf now) logs = [] \<longrightarrow>
        todayTotals dayOf now logs =
          \<lparr>calories = Num 0, protein = Num 0, carbs = Num 0, fat = Num 0, burned = Num 0\<rparr>)"
  by (simp add: todayTotals_def todayLogs_spec foldl_add_log zero_totals_def spec_sum_def
      spec_food_values_def spec_burned_values_def)

text \<open>
  Two instances, with days of 86400000 ms and \<open>now = 0\<close>. The only entry is a food entry
  of the next day: no entry matches and the totals are zero. The only entry is a food
  entry of today with two items of 0.1 g and 0.2 g protein: the protein total is the
  double \<open>0.30000000000000004\<close>.
\<close>

theorem todayTotals_sums_witness:
  "spec_day_entries (\<lambda>t. t div 86400000) ((0::int) div 86400000)
     [\<lparr>id = ''1'', timestamp = 86400000, entry_type = Food,
       items = Some [\<lparr>calories = Num 100, protein = Num 5, carbs = Num 10, fat = Num 2,
                      food_name = ''Apple'', quantity = Num 1, unit = ''serving'',
                      baseCalories = Num 100, baseProtein = Num 5, baseCarbs = Num 10,
                      baseFat = Num 2, confidence = high, item_notes = None\<rparr>],
       exercise = None, noteContent = None, image = None\<rparr>] = []
   \<and> todayTotals (\<lambda>t. t div 86400000) 0
     [\<lparr>id = ''1'', timestamp = 86400000, entry_type = Food,
       items = Some [\<lparr>calories = Num 100, protein = Num 5, carbs = Num 10, fat = Num 2,
                      food_name = ''Apple'', quantity = Num 1, unit = ''serving'',
                      baseCalories = Num 100, baseProtein = Num 5, baseCarbs = Num 10,
                      baseFat = Num 2, confidence = high, item_notes = None\<rparr>],
       exercise = None, noteContent = None, image = None\<rparr>]
     = \<lparr>calories = Num 0, protein = Num 0, carbs = Num 0, fat = Num 0, burned = Num 0\<rparr>
   \<and> protein (todayTotals (\<lambda>t. t div 86400000) 0
     [\<lparr>id = ''2'', timestamp = 3600000, entry_type = Food,
       items = Some [\<lparr>calories = Num 1, protein = lit 0.1, carbs = Num 0, fat = Num 0,
                      food_name = ''Broth'', quantity = Num 1, unit = ''cup'',
                      baseCalories = Num 1, baseProtein = lit 0.1, baseCarbs = Num 0,
                      baseFat = Num 0, confidence = high, item_notes = None\<rparr>,
                     \<lparr>calories = Num 2, protein = lit 0.2, carbs = Num 0, fat = Num 0,
                      food_name = ''Celery'', quantity = Num 1, unit = ''stalk'',
                      baseCalories = Num 2, baseProtein = lit 0.2, baseCarbs = Num 0,
                      baseFat = Num 0, confidence = high, item_notes = None\<rparr>],
       exercise = None, noteContent = None, image = None\<rparr>])
     = Num (1351079888211149 / 4503599627370496)"
proof -
  have s: "Num 0 + lit 0.1 + lit 0.2 = Num (1351079888211149 / 4503599627370496)"
    by code_simp
  show ?thesis
    using todayTotals_sums [of "\<lambda>t. t div 86400000" 0
       "[\<lparr>id = ''1'', timestamp = 86400000, entry_type = Food,
         items = Some [\<lparr>calories = Num 100, protein = Num 5, carbs = Num 10, fat = Num 2,
                        food_name = ''Apple'', quantity = Num 1, unit = ''serving'',
                        baseCalories = Num 100, baseProtein = Num 5, baseCarbs = Num 10,
                        baseFat = Num 2, confidence = high, item_notes = None\<rparr>],
         exercise = None, noteContent = None, image = None\<rparr>]"]
      todayTotals_sums [of "\<lambda>t. t div 86400000" 0
       "[\<lparr>id = ''2'', timestamp = 3600000, entry_type = Food,
         items = Some [\<lparr>calories = Num 1, protein = lit 0.1, carbs = Num 0, fat = Num 0,
                        food_name = ''Broth'', quantity = Num 1, unit = ''cup'',
                        baseCalories = Num 1, baseProtein = lit 0.1, baseCarbs = Num 0,
                        baseFat = Num 0, confidence = high, item_notes = None\<rparr>,
                       \<lparr>calories = Num 2, protein = lit 0.2, carbs = Num 0, fat = Num 0,
                        food_name = ''Celery'', quantity = Num 1, unit = ''stalk'',
                        baseCalories = Num 2, baseProtein = lit 0.2, baseCarbs = Num 0,
                        baseFat = Num 0, confidence = high, item_notes = None\<rparr>],
         exercise = None, noteContent = None, image = None\<rparr>]"]
      s
    by (simp add: spec_day_entries_def spec_food_values_def spec_burned_values_def
        spec_food_items_def spec_sum_def)
qed

subsection \<open>Training-Load Detector\<close>

lemma str_includes_sublist: "str_includes s t \<longleftrightarrow> sublist t s"
  by (induction s) (auto simp: sublist_Cons_right)

lemma deadlift_strength:
  "str_includes (toLowerCase ''Deadlift Strength Session'') ''strength''"
  by code_simp

text \<open>
  C4. The detector answers true exactly when some entry of the day is an exercise entry
  whose intensity is high or whose name in lower case contains "weight", "strength" or
  "lift" as a contiguous substring. An exercise entry named "Deadlift Strength Session"
  of low intensity makes it true.
\<close>

theorem hasStrength_iff:
  "(hasStrength es \<longleftrightarrow>
      (\<exists>l \<in> set es. entry_type l = Exercise \<and>
         (\<exists>ex. exercise l = Some ex \<and>
            (intensity ex = high \<or>
             (\<exists>w \<in> {''weight'', ''strength'', ''lift''}.
                sublist w (toLowerCase (exercise_name ex)))))))
   \<and> hasStrength
        [\<lparr>id = i, timestamp = t, entry_type = Exercise, items = None,
          exercise = Some \<lparr>exercise_name = ''Deadlift Strength Session'',
                           durationMinutes = d, caloriesBurned = c, intensity = low\<rparr>,
          noteContent = None, image = None\<rparr>]"
proof
  show "hasStrength es \<longleftrightarrow>
      (\<exists>l \<in> set es. entry_type l = Exercise \<and>
         (\<exists>ex. exercise l = Some ex \<and>
            (intensity ex = high \<or>
             (\<exists>w \<in> {''weight'', ''strength'', ''lift''}.
                sublist w (toLowerCase (exercise_name ex))))))"
    unfolding hasStrength_def list_ex_iff strength_entry_def str_includes_sublist
    by (auto split: option.splits)
next
  show "hasStrength
        [\<lparr>id = i, timestamp = t, entry_type = Exercise, items = None,
          exercise = Some \<lparr>exercise_name = ''Deadlift Strength Session'',
                           durationMinutes = d, caloriesBurned = c, intensity = low\<rparr>,
          noteContent = None, image = None\<rparr>]"
    by (simp add: hasStrength_def strength_entry_def deadlift_strength)
qed

text \<open>
  An instance: a single exercise entry "Run" of high intensity satisfies the right-hand
  side, so the detector answers true.
\<close>

theorem hasStrength_iff_witness:
  "(\<exists>l \<in> set [\<lparr>id = ''7'', timestamp = 0, entry_type = Exercise, items = None,
          exercise = Some \<lparr>exercise_name = ''Run'', durationMinutes = Num 30,
                           caloriesBurned = Num 300, intensity = high\<rparr>,
          noteContent = None, image = None\<rparr>].
      entry_type l = Exercise \<and>
      (\<exists>ex. exercise l = Some ex \<and>
         (intensity ex = high \<or>
          (\<exists>w \<in> {''weight'', ''strength'', ''lift''}.
             sublist w (toLowerCase (exercise_name ex))))))
   \<and> hasStrength [\<lparr>id = ''7'', timestamp = 0, entry_type = Exercise, items = None,
          exercise = Some \<lparr>exercise_name = ''Run'', durationMinutes = Num 30,
                           caloriesBurned = Num 300, intensity = high\<rparr>,
          noteContent = None, image = None\<rparr>]"
  using hasStrength_iff [of "[\<lparr>id = ''7'', timestamp = 0, entry_type = Exercise, items = None,
          exercise = Some \<lparr>exercise_name = ''Run'', durationMinutes = Num 30,
                           caloriesBurned = Num 300, intensity = high\<rparr>,
          noteContent = None, image = None\<rparr>]"]
  by simp

subsection \<open>Trend Window\<close>

lemma chart_loop_eq:
  "- 1 \<le> i \<Longrightarrow>
   chart_loop dayOf now logs i data = data @ map (chart_point dayOf now logs) (rev [0..i])"
proof (induction dayOf now logs i data rule: chart_loop.induct)
  case (1 dayOf now logs i data)
  show ?case
  proof (cases "i \<ge> 0")
    case True
    then have "[0..i] = [0..i - 1] @ [i]"
      by (simp add: upto_rec2)
    with True 1 show ?thesis
      by (subst chart_loop.simps) simp
  next
    case False
    with 1 show ?thesis by (subst chart_loop.simps) simp
  qed
qed

lemma food_calories_eq:
  "food_calories acc e = (if spec_is_food e then acc + spec_entry_calories e else acc)"
  by (cases "entry_type e"; cases "items e")
     (simp_all add: food_calories_def spec_is_food_def spec_entry_calories_def
        spec_food_items_def spec_sum_def foldl_map)

lemma foldl_food_calories:
  "foldl food_calories acc es =
     foldl (+) acc (map spec_entry_calories (filter spec_is_food es))"
proof (induction es arbitrary: acc)
  case Nil
  show ?case by simp
next
  case (Cons e es)
  show ?case
    by (simp only: foldl_Cons Cons.IH) (simp add: food_calories_eq)
qed

lemma chart_point_eq:
  "chart_point dayOf now logs i =
     \<lparr>point_name = format_EEE (dayOf now - i),
      point_calories = spec_day_food_calories dayOf (dayOf now - i) logs\<rparr>"
  by (simp add: chart_point_def Let_def subDays_def isSameDay_def foldl_food_calories
      spec_day_food_calories_def spec_day_entries_def spec_sum_def)

lemma chart_point_food_only:
  "chart_point dayOf now [e \<leftarrow> logs. entry_type e = Food] i = chart_point dayOf now logs i"
proof -
  have "filter spec_is_food (filter P [e \<leftarrow> logs. entry_type e = Food])
      = filter spec_is_food (filter P logs)" for P
    by (induction logs) (auto simp: spec_is_food_def)
  then show ?thesis
    by (simp add: chart_point_def Let_def foldl_food_calories)
qed

text \<open>
  C6. For every log store the trend window is a list of exactly seven points; the point at
  position \<open>k\<close> (counted from 0) belongs to the day \<open>today - 6 + k\<close>, so the list runs from
  six days ago to today, oldest first. The calories of a point are the sum, in the
  floating-point arithmetic of the source, of the calories of the food entries of its
  day, each the sum of the calories of its items. Exercise and note entries are excluded:
  the window of a log store is the window of its food entries.
\<close>

theorem chartData_seven_points:
  "chartData dayOf now logs =
     map (\<lambda>k. \<lparr>point_name = format_EEE (dayOf now - 6 + int k),
               point_calories = spec_day_food_calories dayOf (dayOf now - 6 + int k) logs\<rparr>)
       [0..<7]
   \<and> length (chartData dayOf now logs) = 7
   \<and> chartData dayOf now [e \<leftarrow> logs. entry_type e = Food] = chartData dayOf now logs"
proof -
  have up: "rev [0..6::int] = [6, 5, 4, 3, 2, 1, 0]"
    by (simp add: upto_rec1)
  have nat7: "[0..<7] = [0, 1, 2, 3, 4, 5, 6::nat]"
    by (simp add: upt_rec)
  have points: "chartData dayOf now logs = map (chart_point dayOf now logs) [6, 5, 4, 3, 2, 1, 0]"
    for logs
    by (simp add: chartData_def chart_loop_eq up)
  have food: "chartData dayOf now [e \<leftarrow> logs. entry_type e = Food] = chartData dayOf now logs"
    unfolding points by (simp add: chart_point_food_only)
  show ?thesis
    using food by (simp add: points nat7 chart_point_eq)
qed

subsection \<open>Client-side scaling\<close>

lemma scale_item_scaled: "spec_scaled (scale_item item q)"
  by (simp add: spec_scaled_def scale_item_def spec_round1_def)

text \<open>
  C5 (as amended). A quantity change made with the quantity field of the form
  (\<open>updateItemQuantity\<close>) at a valid index to \<open>q\<close> succeeds and leaves that item
  with quantity \<open>q\<close>, calories \<open>round (baseCalories * q)\<close> and protein, carbohydrate and
  fat \<open>round (base * q * 10) / 10\<close>, each computed in the floating-point arithmetic of the
  source; its base values are unchanged, and so is every other item. Hence the item
  satisfies the invariant, and if every item satisfied it before, every item satisfies it
  afterwards.
\<close>

theorem updateItemQuantity_scaled:
  "index < length its \<Longrightarrow>
   \<exists>its'. updateItemQuantity index q (Some its) = Inr (Some its')
     \<and> length its' = length its
     \<and> quantity (its' ! index) = q
     \<and> calories (its' ! index) = Math_round (baseCalories (its' ! index) * q)
     \<and> protein (its' ! index) = Math_round (baseProtein (its' ! index) * q * lit 10) / lit 10
     \<and> carbs (its' ! index) = Math_round (baseCarbs (its' ! index) * q * lit 10) / lit 10
     \<and> fat (its' ! index) = Math_round (baseFat (its' ! index) * q * lit 10) / lit 10
     \<and> spec_scaled (its' ! index)
     \<and> baseCalories (its' ! index) = baseCalories (its ! index)
     \<and> baseProtein (its' ! index) = baseProtein (its ! index)
     \<and> baseCarbs (its' ! index) = baseCarbs (its ! index)
     \<and> baseFat (its' ! index) = baseFat (its ! index)
     \<and> (\<forall>j < length its. j \<noteq> index \<longrightarrow> its' ! j = its ! j)
     \<and> (list_all spec_scaled its \<longrightarrow> list_all spec_scaled its')"
proof -
  assume lt: "index < length its"
  let ?its' = "its[index := scale_item (its ! index) q]"
  have upd: "updateItemQuantity index q (Some its) = Inr (Some ?its')"
    using lt by (simp add: updateItemQuantity_def)
  have at: "?its' ! index = scale_item (its ! index) q"
    using lt by simp
  have inv: "list_all spec_scaled its \<longrightarrow> list_all spec_scaled ?its'"
    by (auto simp: list_all_iff scale_item_scaled dest!: set_update_subset_insert[THEN subsetD])
  have fields:
    "quantity (?its' ! index) = q"
    "calories (?its' ! index) = Math_round (baseCalories (?its' ! index) * q)"
    "protein (?its' ! index) = Math_round (baseProtein (?its' ! index) * q * lit 10) / lit 10"
    "carbs (?its' ! index) = Math_round (baseCarbs (?its' ! index) * q * lit 10) / lit 10"
    "fat (?its' ! index) = Math_round (baseFat (?its' ! index) * q * lit 10) / lit 10"
    "baseCalories (?its' ! index) = baseCalories (its ! index)"
    "baseProtein (?its' ! index) = baseProtein (its ! index)"
    "baseCarbs (?its' ! index) = baseCarbs (its ! index)"
    "baseFat (?its' ! index) = baseFat (its ! index)"
    unfolding at by (simp_all add: scale_item_def)
  have sc: "spec_scaled (?its' ! index)"
    unfolding at by (rule scale_item_scaled)
  have others: "\<forall>j < length its. j \<noteq> index \<longrightarrow> ?its' ! j = its ! j"
    by simp
  have len: "length ?its' = length its" by simp
  from upd len fields sc others inv show ?thesis
    by blast
qed

text \<open>
  An instance: the apple, with 0.35 g protein for each unit, set to the quantity 3. The
  product \<open>0.35 * 3 * 10\<close> is the double below 10.5, so the protein stored is 1.
\<close>

theorem updateItemQuantity_scaled_witness:
  "(0::nat) < length [one_apple]
   \<and> list_all spec_scaled [one_apple]
   \<and> (\<exists>its'. updateItemQuantity 0 (Num 3) (Some [one_apple]) = Inr (Some its')
       \<and> quantity (its' ! 0) = Num 3
       \<and> calories (its' ! 0) = Num 156
       \<and> protein (its' ! 0) = Num 1
       \<and> spec_scaled (its' ! 0)
       \<and> list_all spec_scaled its')"
proof -
  have before: "list_all spec_scaled [one_apple]"
    by code_simp
  have base: "baseCalories one_apple = Num 52" "baseProtein one_apple = lit 0.35"
    by (simp_all add: one_apple_def)
  have cal: "Math_round (Num 52 * Num 3) = Num 156"
    by code_simp
  have prot: "Math_round (lit 0.35 * Num 3 * lit 10) / lit 10 = Num 1"
    by code_simp
  show ?thesis
    using updateItemQuantity_scaled [of 0 "[one_apple]" "Num 3"] before base cal prot
    by auto
qed

text \<open>
  The claim as stated fails for a quantity change made through the assistant: the apple
  satisfies the invariant at quantity 1; the reply to the instruction sets the quantity
  to 2 with 105.5 kcal, which is stored as it comes with the base value 52.75, while
  \<open>round (52.75 * 2)\<close> is 106.
\<close>

theorem refineAnalyzedLogs_unrounded:
  "list_all spec_scaled [one_apple]
   \<and> quantity (hd [one_apple]) = Num 1
   \<and> quantity (hd (fst (refineAnalyzedLogs (Inr two_apples_reply) [one_apple]))) = Num 2
   \<and> calories (hd (fst (refineAnalyzedLogs (Inr two_apples_reply) [one_apple]))) = Num 105.5
   \<and> baseCalories (hd (fst (refineAnalyzedLogs (Inr two_apples_reply) [one_apple])))
       = Num 52.75
   \<and> Math_round (Num 52.75 * Num 2) = Num 106
   \<and> \<not> list_all spec_scaled (fst (refineAnalyzedLogs (Inr two_apples_reply) [one_apple]))"
  by code_simp

subsection \<open>Backup and restore\<close>

lemma truthy_iff: "truthy v \<longleftrightarrow> v \<notin> {JNull, JBool False, JNum 0, JStr ''''}"
  by (cases v) auto

lemma importData_rejects:
  "\<not> has_profile_and_logs r \<Longrightarrow>
   \<exists>m \<in> spec_error_messages. importData (Some r) st = alert m st"
proof (cases r)
  case SyntaxError
  then show ?thesis by (simp add: importData_def spec_error_messages_def)
next
  case (Parsed data)
  assume nr: "\<not> has_profile_and_logs r"
  show ?thesis
  proof (cases data)
    case (JObj fs)
    with nr Parsed show ?thesis
      by (auto simp: importData_def has_profile_and_logs_def spec_error_messages_def
          truthy_opt_def truthy_iff split: option.splits)
  qed (simp_all add: Parsed importData_def spec_error_messages_def truthy_opt_def)
qed

lemma importData_accepts:
  "has_profile_and_logs r \<Longrightarrow>
   \<exists>fs p l. r = Parsed (JObj fs) \<and> map_of fs ''profile'' = Some p \<and> map_of fs ''logs'' = Some l
     \<and> importData (Some r) st =
         alert ''Data restored successfully!'' (st\<lparr>st_profile := p, st_logs := l\<rparr>)"
  by (auto simp: importData_def has_profile_and_logs_def truthy_opt_def truthy_iff
      split: parse_result.splits json.splits option.splits)

lemma recognizable_has_members: "spec_recognizable r \<Longrightarrow> has_profile_and_logs r"
  by (auto simp: spec_recognizable_def has_profile_and_logs_def
      split: parse_result.splits json.splits option.splits)

text \<open>
  C8 (as amended). A document that does not parse, is not an object, or in which
  \<open>profile\<close> or \<open>logs\<close> is missing, \<open>null\<close>, \<open>false\<close>, zero or the empty string is
  rejected: the stored profile, log store and chat transcript stay as they were and one
  error message is shown. Every other document is accepted, whatever its two members are:
  exactly they replace the stored profile and log store, a success message is shown, and
  nothing else changes. A document with an object \<open>profile\<close> and an array \<open>logs\<close> is among
  the accepted ones.
\<close>

theorem importData_shape:
  "(\<not> has_profile_and_logs r \<longrightarrow>
      st_profile (importData (Some r) st) = st_profile st
      \<and> st_logs (importData (Some r) st) = st_logs st
      \<and> st_chatHistory (importData (Some r) st) = st_chatHistory st
      \<and> (\<exists>m \<in> spec_error_messages. alerts (importData (Some r) st) = alerts st @ [m]))
   \<and> (has_profile_and_logs r \<longrightarrow>
      (\<exists>fs p l. r = Parsed (JObj fs)
         \<and> map_of fs ''profile'' = Some p \<and> map_of fs ''logs'' = Some l
         \<and> importData (Some r) st =
             st\<lparr>st_profile := p, st_logs := l,
                alerts := alerts st @ [''Data restored successfully!'']\<rparr>))
   \<and> (spec_recognizable r \<longrightarrow> has_profile_and_logs r)"
proof (intro conjI impI)
  assume "\<not> has_profile_and_logs r"
  then obtain m where m: "m \<in> spec_error_messages" "importData (Some r) st = alert m st"
    using importData_rejects by blast
  from m(2) show "st_profile (importData (Some r) st) = st_profile st"
    and "st_logs (importData (Some r) st) = st_logs st"
    and "st_chatHistory (importData (Some r) st) = st_chatHistory st"
    by (simp_all add: alert_def)
  from m show "\<exists>m \<in> spec_error_messages. alerts (importData (Some r) st) = alerts st @ [m]"
    by (auto simp: alert_def)
next
  assume "has_profile_and_logs r"
  from importData_accepts[OF this, of st]
  show "\<exists>fs p l. r = Parsed (JObj fs)
         \<and> map_of fs ''profile'' = Some p \<and> map_of fs ''logs'' = Some l
         \<and> importData (Some r) st =
             st\<lparr>st_profile := p, st_logs := l,
                alerts := alerts st @ [''Data restored successfully!'']\<rparr>"
    by (auto simp: alert_def)
next
  assume "spec_recognizable r"
  then show "has_profile_and_logs r" by (rule recognizable_has_members)
qed

text \<open>
  Three instances: a document with a profile and no logs is rejected and the state keeps
  its profile; a document with both members is accepted and both are stored; a document
  with an object profile and an array of logs has both members.
\<close>

theorem importData_shape_witness:
  "\<not> has_profile_and_logs (Parsed (JObj [(''profile'', JObj [(''name'', JStr ''Ann'')])]))
   \<and> st_profile (importData (Some (Parsed (JObj [(''profile'', JObj [(''name'', JStr ''Ann'')])])))
        \<lparr>st_profile = JObj [], st_logs = JArr [], st_chatHistory = JArr [], alerts = []\<rparr>)
      = JObj []
   \<and> alerts (importData (Some (Parsed (JObj [(''profile'', JObj [(''name'', JStr ''Ann'')])])))
        \<lparr>st_profile = JObj [], st_logs = JArr [], st_chatHistory = JArr [], alerts = []\<rparr>)
      \<in> {[''Invalid backup file format.''], [''Failed to parse backup file.'']}
   \<and> has_profile_and_logs
        (Parsed (JObj [(''profile'', JObj [(''name'', JStr ''Ann'')]), (''logs'', JArr [])]))
   \<and> importData
        (Some (Parsed (JObj [(''profile'', JObj [(''name'', JStr ''Ann'')]), (''logs'', JArr [])])))
        \<lparr>st_profile = JObj [], st_logs = JArr [JNull], st_chatHistory = JArr [], alerts = []\<rparr>
      = \<lparr>st_profile = JObj [(''name'', JStr ''Ann'')], st_logs = JArr [],
         st_chatHistory = JArr [], alerts = [''Data restored successfully!'']\<rparr>
   \<and> spec_recognizable
        (Parsed (JObj [(''profile'', JObj [(''name'', JStr ''Ann'')]), (''logs'', JArr [])]))"
  using importData_shape [of "Parsed (JObj [(''profile'', JObj [(''name'', JStr ''Ann'')])])"
      "\<lparr>st_profile = JObj [], st_logs = JArr [], st_chatHistory = JArr [], alerts = []\<rparr>"]
    importData_shape [of
      "Parsed (JObj [(''profile'', JObj [(''name'', JStr ''Ann'')]), (''logs'', JArr [])])"
      "\<lparr>st_profile = JObj [], st_logs = JArr [JNull], st_chatHistory = JArr [], alerts = []\<rparr>"]
  by (simp add: has_profile_and_logs_def spec_recognizable_def spec_error_messages_def)

text \<open>
  The claim as stated fails: the document \<open>{"profile": 1, "logs": true}\<close> has no
  recognizable profile or log store, and it is not rejected. The number becomes the stored
  profile and the boolean the stored log store, with the success message.
\<close>

theorem importData_unrecognizable_accepted:
  "\<not> spec_recognizable (Parsed (JObj [(''profile'', JNum 1), (''logs'', JBool True)]))
   \<and> importData (Some (Parsed (JObj [(''profile'', JNum 1), (''logs'', JBool True)])))
        \<lparr>st_profile = profile_json INITIAL_PROFILE, st_logs = JArr [],
         st_chatHistory = JArr [], alerts = []\<rparr>
      = \<lparr>st_profile = JNum 1, st_logs = JBool True, st_chatHistory = JArr [],
         alerts = [''Data restored successfully!'']\<rparr>"
  by (simp add: spec_recognizable_def importData_def truthy_opt_def alert_def)

text \<open>
  C9. Importing the document that \<open>exportData\<close> produced for a profile and a log store
  leaves exactly that profile and that log store in the state, whatever the state was
  before. The log store may be empty: an empty array is truthy.
\<close>

theorem export_import_roundtrip:
  "importData
     (Some (Parsed (exportData
        \<lparr>st_profile = profile_json p, st_logs = logs_json es, st_chatHistory = ch,
         alerts = a\<rparr>))) st
   = st\<lparr>st_profile := profile_json p, st_logs := logs_json es,
        alerts := alerts st @ [''Data restored successfully!'']\<rparr>"
  by (simp add: importData_def exportData_def truthy_opt_def profile_json_def logs_json_def
      alert_def)

subsection \<open>Retry policy of the transport wrapper\<close>

lemma callApi_loop_props:
  "i \<le> retries \<Longrightarrow>
   i \<le> fetches (callApi_loop pf net retries i waited)
   \<and> fetches (callApi_loop pf net retries i waited) \<le> retries
   \<and> (i < retries \<longrightarrow> i < fetches (callApi_loop pf net retries i waited))
   \<and> delays (callApi_loop pf net retries i waited) =
       waited @ map spec_backoff [i ..< fetches (callApi_loop pf net retries i waited) - 1]
   \<and> (\<forall>k. i \<le> k \<and> k < fetches (callApi_loop pf net retries i waited) \<longrightarrow>
          spec_step pf net retries (callApi_loop pf net retries i waited) k)"
proof (induction pf net retries i waited rule: callApi_loop.induct)
  case (1 pf net retries i waited)
  show ?case
  proof (cases "i < retries")
    case False
    then have eq: "callApi_loop pf net retries i waited =
        \<lparr>outcome = Inr None, fetches = i, delays = waited\<rparr>"
      by (subst callApi_loop.simps) simp
    show ?thesis using "1.prems" False unfolding eq by auto
  next
    case lt: True
    show ?thesis
    proof (cases "attempt pf (net i)")
      case (Inr data)
      with lt have eq: "callApi_loop pf net retries i waited =
          \<lparr>outcome = Inr (Some data), fetches = i + 1, delays = waited\<rparr>"
        by (subst callApi_loop.simps) simp
      have "spec_step pf net retries \<lparr>outcome = Inr (Some data), fetches = i + 1, delays = waited\<rparr> k"
        if "i \<le> k \<and> k < i + 1" for k
      proof -
        from that have "k = i" by simp
        with Inr show ?thesis by (simp add: spec_step_def)
      qed
      with lt show ?thesis
        unfolding eq by simp
    next
      case (Inl m)
      show ?thesis
      proof (cases "spec_retried retries i m")
        case False
        with lt Inl have eq: "callApi_loop pf net retries i waited =
            \<lparr>outcome = Inl m, fetches = i + 1, delays = waited\<rparr>"
          by (subst callApi_loop.simps) (auto simp: spec_retried_def)
        have "spec_step pf net retries \<lparr>outcome = Inl m, fetches = i + 1, delays = waited\<rparr> k"
          if "i \<le> k \<and> k < i + 1" for k
        proof -
          from that have "k = i" by simp
          with Inl False show ?thesis by (simp add: spec_step_def)
        qed
        with lt show ?thesis
          unfolding eq by simp
      next
        case True
        then have c1: "i \<noteq> retries - 1" and c2: "\<not> (\<not> isRateLimit m \<and> i > 0)"
          by (auto simp: spec_retried_def)
        let ?run = "callApi_loop pf net retries (i + 1) (waited @ [2 ^ (i + 1) * 1500])"
        have eq: "callApi_loop pf net retries i waited = ?run"
          using lt Inl c1 c2 by (subst callApi_loop.simps) auto
        have IH: "i + 1 \<le> fetches ?run \<and> fetches ?run \<le> retries
          \<and> (i + 1 < retries \<longrightarrow> i + 1 < fetches ?run)
          \<and> delays ?run = (waited @ [2 ^ (i + 1) * 1500]) @ map spec_backoff [i + 1 ..< fetches ?run - 1]
          \<and> (\<forall>k. i + 1 \<le> k \<and> k < fetches ?run \<longrightarrow> spec_step pf net retries ?run k)"
          using "1.IH"[OF lt Inl c1 c2] True by (simp add: spec_retried_def)
        from True have nx: "i + 1 < retries" by (simp add: spec_retried_def)
        with IH have f2: "i + 1 < fetches ?run" by simp
        have d: "[i ..< fetches ?run - 1] = i # [i + 1 ..< fetches ?run - 1]"
          using f2 by (simp add: upt_rec)
        have b: "(2::nat) ^ (i + 1) * 1500 = spec_backoff i"
          by (simp add: spec_backoff_def)
        have si: "spec_step pf net retries ?run i"
          using Inl True f2 by (simp add: spec_step_def)
        have dl: "delays ?run = waited @ map spec_backoff [i ..< fetches ?run - 1]"
          using IH d b by simp
        have allk: "\<forall>k. i \<le> k \<and> k < fetches ?run \<longrightarrow> spec_step pf net retries ?run k"
        proof (intro allI impI)
          fix k assume "i \<le> k \<and> k < fetches ?run"
          then consider "k = i" | "i + 1 \<le> k \<and> k < fetches ?run" by linarith
          then show "spec_step pf net retries ?run k"
            using si IH by cases auto
        qed
        have "i \<le> fetches ?run" "fetches ?run \<le> retries" "i < fetches ?run"
          using IH f2 by simp_all
        with dl allk show ?thesis
          unfolding eq by blast
      qed
    qed
  qed
qed

lemma busy_message_busy: "isRateLimit (busy_message s)"
proof -
  have "sublist ''busy'' (''Server is '' @ ''busy'' @ '' (Status '' @ show_nat s @ '')'')"
    unfolding sublist_def by blast
  then show ?thesis
    by (simp add: isRateLimit_def busy_message_def str_includes_sublist)
qed

lemma busy_status_transient:
  "status r = 429 \<or> status r = 503 \<Longrightarrow>
   attempt pf (Resolved r) = Inl (busy_message (status r)) \<and> isRateLimit (busy_message (status r))"
  by (auto simp: attempt_def busy_message_busy)

lemma busy_then_ok_first:
  "attempt example_platform (busy_then_ok 0) = Inl ''Server is busy (Status 503)''"
  by code_simp

lemma busy_retried: "spec_retried 3 0 ''Server is busy (Status 503)''"
  by code_simp

lemma busy_reply_status: "status busy_reply = 503"
  by (simp add: busy_reply_def)

text \<open>
  C7 (as amended). A call that allows \<open>retries\<close> attempts makes at least one and at most
  \<open>retries\<close> of them, and the delays it waits are 3000 ms after the first failure and
  twice the previous delay after each further one. An iteration that returns data ends
  the run with it. A failed iteration is followed by another one exactly when an attempt
  remains and either the message of the error mentions 429, 503 or busy, or the iteration
  is the first; otherwise the run ends at once with that error. Every response with status
  429 or 503 fails with such a message. With at most three attempts allowed there are at
  most three attempts and the delays are none, 3 s, or 3 s and 6 s.
\<close>

theorem callApi_retry_policy:
  "fetches (callApi pf net retries) \<le> retries
   \<and> (0 < retries \<longrightarrow> 0 < fetches (callApi pf net retries))
   \<and> delays (callApi pf net retries) =
       map spec_backoff [0 ..< fetches (callApi pf net retries) - 1]
   \<and> (\<forall>k < fetches (callApi pf net retries).
         spec_step pf net retries (callApi pf net retries) k)
   \<and> (\<forall>r. status r = 429 \<or> status r = 503 \<longrightarrow>
         (\<exists>m. attempt pf (Resolved r) = Inl m \<and> isRateLimit m))
   \<and> (retries \<le> 3 \<longrightarrow>
         fetches (callApi pf net retries) \<le> 3
         \<and> delays (callApi pf net retries) \<in> {[], [3000], [3000, 6000]})"
proof -
  let ?run = "callApi pf net retries"
  from callApi_loop_props[of 0 retries pf net "[]"]
  have p: "fetches ?run \<le> retries" "0 < retries \<longrightarrow> 0 < fetches ?run"
    "delays ?run = map spec_backoff [0 ..< fetches ?run - 1]"
    "\<forall>k. k < fetches ?run \<longrightarrow> spec_step pf net retries ?run k"
    by (simp_all add: callApi_def)
  have t: "\<forall>r. status r = 429 \<or> status r = 503 \<longrightarrow>
         (\<exists>m. attempt pf (Resolved r) = Inl m \<and> isRateLimit m)"
    using busy_status_transient by blast
  have three: "fetches ?run \<le> 3 \<and> delays ?run \<in> {[], [3000], [3000, 6000]}"
    if "retries \<le> 3"
  proof -
    from that p(1) have f: "fetches ?run \<le> 3" by simp
    then consider "fetches ?run - 1 = 0" | "fetches ?run - 1 = 1" | "fetches ?run - 1 = 2"
      by linarith
    then have "delays ?run \<in> {[], [3000], [3000, 6000]}"
      by cases (simp_all add: p(3) spec_backoff_def upt_rec)
    with f show ?thesis by simp
  qed
  from p t three show ?thesis by blast
qed

text \<open>
  An instance with three attempts allowed: the server answers 503 once. The first
  iteration runs, its failure is transient, so a second iteration follows; the delays stay
  within the schedule, and the 503 reply is classified as transient.
\<close>

theorem callApi_retry_policy_witness:
  "(0::nat) < 3 \<and> (3::nat) \<le> 3
   \<and> 0 < fetches (callApi example_platform busy_then_ok 3)
   \<and> spec_step example_platform busy_then_ok 3 (callApi example_platform busy_then_ok 3) 0
   \<and> 1 < fetches (callApi example_platform busy_then_ok 3)
   \<and> fetches (callApi example_platform busy_then_ok 3) \<le> 3
   \<and> delays (callApi example_platform busy_then_ok 3) \<in> {[], [3000], [3000, 6000]}
   \<and> status busy_reply = 503
   \<and> (\<exists>m. attempt example_platform (Resolved busy_reply) = Inl m \<and> isRateLimit m)"
  using callApi_retry_policy [of example_platform busy_then_ok 3] busy_then_ok_first busy_retried
    busy_reply_status
  by (auto simp: spec_step_def)

text \<open>
  The claim as stated fails: the server rejects the first request with status 400 and the
  message \<open>Missing request body\<close>, which is not transient, and answers the second. With
  three attempts allowed the wrapper waits 3000 ms, sends the request again and returns
  the data of the second reply.
\<close>

theorem callApi_nontransient_retried:
  "attempt example_platform (bad_request_then_ok 0) = Inl ''Missing request body''
   \<and> \<not> isRateLimit ''Missing request body''
   \<and> callApi example_platform bad_request_then_ok 3 =
       \<lparr>outcome = Inr (Some (JObj [(''calories'', JNum 240), (''note'', JStr ''Moderate run'')])),
        fetches = 2, delays = [3000]\<rparr>"
  by code_simp


subsection \<open>Exercise estimate\<close>

text \<open>
  What holds of the estimate: a result is always returned; when the \<open>try\<close> block fails
  and the intensity does not name a member of \<open>Object.prototype\<close>, the result is the local
  estimate of the claim with the offline note; when the call returns an object, the result
  is its \<open>calories\<close> member, or 0 when that is missing or falsy, with its \<open>note\<close> or the
  empty string.
\<close>

lemma estimateExerciseCalories_returns:
  "\<exists>e. estimateExerciseCalories pf net name duration i p = Inr e"
  by (simp add: estimateExerciseCalories_def split: sum.splits)

lemma met_spec:
  "i \<notin> set Object_prototype_keys \<Longrightarrow> met i = OwnNumber (spec_met i)"
  by (simp add: met_def intensityMultipliers_def spec_met_def truthy_number_def lit_small)

lemma estimateExerciseCalories_fallback:
  "estimate_try pf net = Inl m \<Longrightarrow> i \<notin> set Object_prototype_keys \<Longrightarrow>
   estimateExerciseCalories pf net name duration i p =
     Inr \<lparr>est_calories = Number (spec_local_estimate duration i p),
          est_note = JStr ''Offline estimate (API unavailable).''\<rparr>"
  by (simp add: estimateExerciseCalories_def estCalories_def met_spec spec_local_estimate_def
      ToNumber_def)

lemma estimate_try_throws:
  "outcome (callApi pf net 2) = Inl m \<Longrightarrow> estimate_try pf net = Inl m"
  by (simp add: estimate_try_def)

lemma estimateExerciseCalories_success:
  "outcome (callApi pf net 2) = Inr (Some (JObj fs)) \<Longrightarrow>
   estimateExerciseCalories pf net name duration i p =
     Inr \<lparr>est_calories = J (or_default (map_of fs ''calories'') (JNum 0)),
          est_note = or_default (map_of fs ''note'') (JStr '''')\<rparr>"
  by (simp add: estimateExerciseCalories_def estimate_try_def)

lemma estimate_low_58kg_25min:
  "spec_local_estimate (Num 25) ''low'' (INITIAL_PROFILE\<lparr>weightKg := Num 58\<rparr>) = Num 101"
  by code_simp

text \<open>
  C10, at the failing input. The network is down, so both attempts of the call fail and
  the \<open>catch\<close> clause computes the local estimate. For the intensity string
  \<open>constructor\<close> the lookup yields the inherited member \<open>Object\<close>, which is truthy, so
  the default 6 is not taken; the product is \<open>NaN\<close> and so is the estimate. The claim
  asks for \<open>round (6 * 3.5 * 70 / 200 * 30) = 221\<close>.
\<close>

theorem estimateExerciseCalories_constructor:
  "outcome (callApi example_platform offline 2) = Inl ''Failed to fetch''
   \<and> estimateExerciseCalories example_platform offline ''Run'' (Num 30) ''constructor''
         INITIAL_PROFILE
       = Inr \<lparr>est_calories = Number NaN,
              est_note = JStr ''Offline estimate (API unavailable).''\<rparr>
   \<and> spec_local_estimate (Num 30) ''constructor'' INITIAL_PROFILE = Num 221"
proof -
  have lookup: "intensityMultipliers ''constructor'' = Inherited"
    by (simp add: intensityMultipliers_def Object_prototype_keys_def)
  then have "met ''constructor'' = Inherited"
    by (simp add: met_def)
  then have "ToNumber (met ''constructor'') = NaN"
    by (simp add: ToNumber_def)
  then have nan: "estCalories (Num 30) ''constructor'' INITIAL_PROFILE = NaN"
    by (simp add: estCalories_def times_number_def divide_number_def Math_round_def)
  have down: "outcome (callApi example_platform offline 2) = Inl ''Failed to fetch''"
    by code_simp
  then have thrown: "estimate_try example_platform offline = Inl ''Failed to fetch''"
    by (simp add: estimate_try_def)
  have expected: "spec_local_estimate (Num 30) ''constructor'' INITIAL_PROFILE = Num 221"
    by code_simp
  from thrown nan down expected show ?thesis
    by (simp add: estimateExerciseCalories_def)
qed

end
